theory Spec2Isabelle
  imports Complex_Main "HOL-Library.Word" "HOL-Library.Stream"
begin

unbundle bit_operations_syntax

section \<open>Common Python values\<close>

text \<open>
  Python \<open>int\<close> is \<open>int\<close>. A Python \<open>float\<close> on which the code does arithmetic is a
  value of \<open>pyfloat\<close>, the binary64 numbers with their rounding (section
  Floating-point numbers). Where the code only compares a stored number with integer
  thresholds (the food records), the number is a \<open>real\<close>. Every built-in exception the
  modelled code can raise is a value of \<open>exn\<close>; the string is its message.
\<close>

datatype exn =
    Exception string
  | ValueError string
  | IndexError string
  | ZeroDivisionError string
  | OverflowError string

text \<open>
  \<open>str.lower()\<close> belongs to the Python runtime and follows the Unicode case mapping;
  the functions that call it take it as the parameter \<open>str_lower\<close>. On a string of
  ASCII characters it maps \<open>A\<close>..\<open>Z\<close> to \<open>a\<close>..\<open>z\<close> and leaves the other characters:
  \<open>ascii_lower\<close> is that function, the instance of \<open>str_lower\<close> for the examples,
  whose strings are ASCII.
\<close>

definition ascii_lower_char :: "char \<Rightarrow> char" where
  "ascii_lower_char c =
     (case map_of (zip ''ABCDEFGHIJKLMNOPQRSTUVWXYZ'' ''abcdefghijklmnopqrstuvwxyz'') c of
        Some l \<Rightarrow> l
      | None \<Rightarrow> c)"

definition ascii_lower :: "string \<Rightarrow> string" where
  "ascii_lower s = map ascii_lower_char s"

section \<open>Food recognition service\<close>

text \<open>One entry of the food database: the dict stored under a food name.\<close>

record food_record =
  calories :: real
  protein :: real
  carbs :: real
  fat :: real
  fiber :: real
  vitamins :: "string list"
  confidence_threshold :: real

text \<open>\<open>_load_food_database\<close>: the dict literal, in its insertion order.\<close>

definition load_food_database :: "(string \<times> food_record) list" where
  "load_food_database =
    [ (''apple'', \<lparr>calories = 52, protein = 0.3, carbs = 13.8, fat = 0.2, fiber = 2.4,
         vitamins = [''C'', ''K''], confidence_threshold = 0.8\<rparr>),
      (''banana'', \<lparr>calories = 89, protein = 1.1, carbs = 22.8, fat = 0.3, fiber = 2.6,
         vitamins = [''B6'', ''C''], confidence_threshold = 0.8\<rparr>),
      (''chicken_breast'', \<lparr>calories = 165, protein = 31, carbs = 0, fat = 3.6, fiber = 0,
         vitamins = [''B6'', ''B12''], confidence_threshold = 0.7\<rparr>),
      (''salmon'', \<lparr>calories = 208, protein = 25, carbs = 0, fat = 12, fiber = 0,
         vitamins = [''B12'', ''D''], confidence_threshold = 0.7\<rparr>),
      (''rice'', \<lparr>calories = 130, protein = 2.7, carbs = 28, fat = 0.3, fiber = 0.4,
         vitamins = [''B1'', ''B3''], confidence_threshold = 0.8\<rparr>),
      (''broccoli'', \<lparr>calories = 34, protein = 2.8, carbs = 6.6, fat = 0.4, fiber = 2.6,
         vitamins = [''C'', ''K''], confidence_threshold = 0.8\<rparr>),
      (''pizza'', \<lparr>calories = 266, protein = 11, carbs = 33, fat = 10, fiber = 2.3,
         vitamins = [''B12'', ''D''], confidence_threshold = 0.9\<rparr>),
      (''salad'', \<lparr>calories = 20, protein = 2, carbs = 4, fat = 0.2, fiber = 1.5,
         vitamins = [''A'', ''C''], confidence_threshold = 0.6\<rparr>) ]"

text \<open>\<open>self.food_database.get(name)\<close>: \<open>None\<close> for an absent key.\<close>

definition food_database_get :: "string \<Rightarrow> food_record option" where
  "food_database_get name = map_of load_food_database name"

text \<open>
  \<open>_calculate_health_score\<close>: the score is rebound step by step, as the four
  \<open>if\<close>/\<open>elif\<close> statements of the source do, and clamped at the end.
\<close>

definition calculate_health_score :: "food_record \<Rightarrow> int" where
  "calculate_health_score nutrition_info =
     (let score = 100;
          score = (if calories nutrition_info > 300 then score - 20
                   else if calories nutrition_info > 200 then score - 10 else score);
          score = (if protein nutrition_info > 20 then score + 10
                   else if protein nutrition_info > 10 then score + 5 else score);
          score = (if fat nutrition_info > 15 then score - 15
                   else if fat nutrition_info > 10 then score - 10 else score);
          score = (if fiber nutrition_info > 5 then score + 10
                   else if fiber nutrition_info > 2 then score + 5 else score)
      in max 0 (min 100 score))"

text \<open>\<open>_get_health_benefits\<close> and \<open>_get_preparation_tips\<close>: static tables with a default.\<close>

definition get_health_benefits :: "string \<Rightarrow> string list" where
  "get_health_benefits food_name =
     (case map_of
        [ (''apple'', [''Rich in fiber'', ''Contains antioxidants'', ''Supports heart health'']),
          (''banana'', [''High in potassium'', ''Good source of vitamin B6'', ''Supports digestion'']),
          (''chicken_breast'', [''High-quality protein'', ''Low in fat'', ''Rich in B vitamins'']),
          (''salmon'', [''High in omega-3 fatty acids'', ''Excellent protein source'',
                       ''Rich in vitamin D'']),
          (''broccoli'', [''High in vitamin C'', ''Contains antioxidants'',
                         ''Supports immune system'']) ] food_name
      of Some bs \<Rightarrow> bs | None \<Rightarrow> [''Nutritious food''])"

text \<open>The degree sign of the first tip is written as its two UTF-8 bytes.\<close>

definition get_preparation_tips :: "string \<Rightarrow> string list" where
  "get_preparation_tips food_name =
     (case map_of
        [ (''chicken_breast'',
             [''Cook to internal temperature of 165'' @ [char_of (194 :: nat), char_of (176 :: nat)] @ ''F'',
              ''Let rest before slicing'']),
          (''salmon'', [''Cook until flaky'', ''Don't overcook'']),
          (''broccoli'', [''Steam for 3-5 minutes'', ''Keep bright green color'']),
          (''rice'', [''Use 2:1 water to rice ratio'', ''Let steam after cooking'']) ] food_name
      of Some ts \<Rightarrow> ts | None \<Rightarrow> [''Enjoy fresh''])"

record nutrition_response =
  food_name :: string
  nutrition :: food_record
  health_benefits :: "string list"
  preparation_tips :: "string list"

text \<open>
  \<open>get_nutrition_info\<close>: the lookup key is the lower-cased name; \<open>not food_info\<close> holds
  for \<open>None\<close> only, since no entry of the table is an empty dict. The benefits and
  tips are looked up under the name as given.
\<close>

definition get_nutrition_info :: "(string \<Rightarrow> string) \<Rightarrow> string \<Rightarrow> exn + nutrition_response" where
  "get_nutrition_info str_lower name =
     (case food_database_get (str_lower name) of
        None \<Rightarrow> Inl (ValueError (''Food '' @ [CHR 39] @ name @ [CHR 39] @ '' not found in database''))
      | Some food_info \<Rightarrow>
          Inr \<lparr>food_name = name, nutrition = food_info,
               health_benefits = get_health_benefits name,
               preparation_tips = get_preparation_tips name\<rparr>)"

section \<open>Floating-point numbers\<close>

text \<open>
  A Python \<open>float\<close> is an IEEE 754 binary64 number: a finite value, an infinity or
  NaN. A finite value is the real number it denotes (the two zeros are one value: no
  modelled operation tells them apart). Every arithmetic operation returns the exact
  result rounded to the nearest binary64 number, a tie going to the neighbour with an
  even significand.
\<close>

text \<open>Rounding to the nearest integer, a tie going to the even neighbour.\<close>

definition round_half_even :: "real \<Rightarrow> int" where
  "round_half_even x =
     (let f = \<lfloor>x\<rfloor>; d = x - of_int f
      in if d < 1 / 2 then f else if d > 1 / 2 then f + 1 else if even f then f else f + 1)"

text \<open>
  \<open>pow2 e\<close> is the power of two with exponent \<open>e\<close>. \<open>expo x\<close> is the binary exponent
  of \<open>x\<close>, not below that of the subnormal numbers, and \<open>fl x\<close> is \<open>x\<close> rounded to 53
  significant bits at that exponent: the nearest binary64 number as long as the
  result is below \<open>2 ^ 1024\<close>.
\<close>

definition pow2 :: "int \<Rightarrow> real" where
  "pow2 e = (if e \<ge> 0 then 2 ^ nat e else 1 / 2 ^ nat (- e))"

definition expo :: "real \<Rightarrow> int" where
  "expo x = max \<lfloor>log 2 \<bar>x\<bar>\<rfloor> (- 1022)"

definition fl :: "real \<Rightarrow> real" where
  "fl x = (if x = 0 then 0
           else of_int (round_half_even (x / pow2 (expo x - 52))) * pow2 (expo x - 52))"

datatype pyfloat = Finite real | PosInf | NegInf | NaN

text \<open>
  The rounded result of an operation whose exact result is \<open>x\<close>: beyond the largest
  finite number it is an infinity.
\<close>

definition round_double :: "real \<Rightarrow> pyfloat" where
  "round_double x =
     (let y = fl x
      in if y \<ge> pow2 1024 then PosInf else if y \<le> - pow2 1024 then NegInf else Finite y)"

text \<open>A decimal literal of the source: the nearest binary64 number.\<close>

definition lit :: "real \<Rightarrow> pyfloat" where
  "lit x = round_double x"

text \<open>
  Addition, negation, subtraction and multiplication never raise. The equations are
  tried in their order.
\<close>

fun fadd :: "pyfloat \<Rightarrow> pyfloat \<Rightarrow> pyfloat" where
  "fadd (Finite a) (Finite b) = round_double (a + b)"
| "fadd NaN y = NaN"
| "fadd x NaN = NaN"
| "fadd PosInf NegInf = NaN"
| "fadd NegInf PosInf = NaN"
| "fadd PosInf y = PosInf"
| "fadd x PosInf = PosInf"
| "fadd NegInf y = NegInf"
| "fadd x NegInf = NegInf"

fun fneg :: "pyfloat \<Rightarrow> pyfloat" where
  "fneg (Finite a) = Finite (- a)"
| "fneg PosInf = NegInf"
| "fneg NegInf = PosInf"
| "fneg NaN = NaN"

definition fsub :: "pyfloat \<Rightarrow> pyfloat \<Rightarrow> pyfloat" where
  "fsub x y = fadd x (fneg y)"

fun inf_sign :: "bool \<Rightarrow> pyfloat" where
  "inf_sign True = PosInf"
| "inf_sign False = NegInf"

fun fmul :: "pyfloat \<Rightarrow> pyfloat \<Rightarrow> pyfloat" where
  "fmul (Finite a) (Finite b) = round_double (a * b)"
| "fmul NaN y = NaN"
| "fmul x NaN = NaN"
| "fmul (Finite a) y = (if a = 0 then NaN else inf_sign ((a > 0) = (y = PosInf)))"
| "fmul x (Finite b) = (if b = 0 then NaN else inf_sign ((b > 0) = (x = PosInf)))"
| "fmul x y = inf_sign (x = y)"

text \<open>
  \<open>x / y\<close> raises \<open>ZeroDivisionError\<close> when the divisor is zero, whatever the dividend
  is.
\<close>

fun truediv :: "pyfloat \<Rightarrow> pyfloat \<Rightarrow> exn + pyfloat" where
  "truediv x (Finite b) =
     (if b = 0 then Inl (ZeroDivisionError ''float division by zero'')
      else Inr (case x of
                  Finite a \<Rightarrow> round_double (a / b)
                | NaN \<Rightarrow> NaN
                | PosInf \<Rightarrow> inf_sign (b > 0)
                | NegInf \<Rightarrow> inf_sign (b < 0)))"
| "truediv (Finite a) y = Inr (if y = NaN then NaN else Finite 0)"
| "truediv x y = Inr NaN"

text \<open>
  \<open>x ** 2\<close> is the square rounded to the nearest number; the C library's \<open>pow\<close>
  returns it when the square is representable and is taken to round correctly
  otherwise. A finite square beyond the largest finite number raises
  \<open>OverflowError\<close>; a square below the smallest positive number is zero.
\<close>

fun fpow2 :: "pyfloat \<Rightarrow> exn + pyfloat" where
  "fpow2 (Finite a) =
     (if fl (a * a) \<ge> pow2 1024
      then Inl (OverflowError (''(34, '' @ [CHR 39] @ ''Numerical result out of range'' @ [CHR 39] @ '')''))
      else Inr (Finite (fl (a * a))))"
| "fpow2 NaN = Inr NaN"
| "fpow2 x = Inr PosInf"

text \<open>The comparisons \<open><\<close> and \<open>>\<close>: false whenever one side is NaN.\<close>

fun flt :: "pyfloat \<Rightarrow> pyfloat \<Rightarrow> bool" where
  "flt (Finite a) (Finite b) = (a < b)"
| "flt NaN y = False"
| "flt x NaN = False"
| "flt PosInf y = False"
| "flt x NegInf = False"
| "flt x y = True"

definition fgt :: "pyfloat \<Rightarrow> pyfloat \<Rightarrow> bool" where
  "fgt x y = flt y x"

text \<open>\<open>int(x)\<close>: truncation towards zero; it raises on an infinity and on NaN.\<close>

fun py_int :: "pyfloat \<Rightarrow> exn + int" where
  "py_int (Finite a) = Inr (if a \<ge> 0 then \<lfloor>a\<rfloor> else \<lceil>a\<rceil>)"
| "py_int NaN = Inl (ValueError ''cannot convert float NaN to integer'')"
| "py_int x = Inl (OverflowError ''cannot convert float infinity to integer'')"

text \<open>
  The built-ins \<open>min(a, b)\<close> and \<open>max(a, b)\<close> on two numbers: the second argument
  replaces the first only when it is smaller, respectively greater.
\<close>

definition py_min :: "pyfloat \<Rightarrow> pyfloat \<Rightarrow> pyfloat" where
  "py_min a b = (if flt b a then b else a)"

definition py_max :: "pyfloat \<Rightarrow> pyfloat \<Rightarrow> pyfloat" where
  "py_max a b = (if fgt b a then b else a)"

text \<open>
  The built-in \<open>sum\<close> of a list of floats is a parameter \<open>py_sum\<close> of the function
  that calls it, since its algorithm depends on the version of the runtime
  (left-to-right addition, or a compensated summation). \<open>naive_sum\<close> is the
  left-to-right addition starting from 0. \<open>sum_in_range\<close> is the one property of
  the sum that the aggregate score relies on: the sum of fewer than \<open>2 ^ 53\<close> values
  between 0 and 1 is a finite value between 0 and their number. The left-to-right
  addition has it.
\<close>

fun in_unit :: "pyfloat \<Rightarrow> bool" where
  "in_unit (Finite r) = (0 \<le> r \<and> r \<le> 1)"
| "in_unit x = False"

definition naive_sum :: "pyfloat list \<Rightarrow> pyfloat" where
  "naive_sum vs = foldl fadd (Finite 0) vs"

definition sum_in_range :: "(pyfloat list \<Rightarrow> pyfloat) \<Rightarrow> bool" where
  "sum_in_range py_sum =
     (\<forall>vs. length vs < 2 ^ 53 \<longrightarrow> list_all in_unit vs \<longrightarrow>
        (\<exists>s. py_sum vs = Finite s \<and> 0 \<le> s \<and> s \<le> real (length vs)))"

section \<open>Risk forecasting service\<close>

text \<open>
  The two dict arguments of \<open>_mock_risk_calculation\<close>, with the keys that function
  reads. A field is \<open>None\<close> when the key is absent, where \<open>dict.get\<close> takes its
  default. Weight and height are floats (an integer default is the float of the same
  value); the systolic pressure and the age are integers.
\<close>

record health_metrics =
  weight :: "pyfloat option"
  height :: "pyfloat option"
  blood_pressure_systolic :: "int option"

record lifestyle_data =
  age :: "int option"
  physical_activity_level :: "string option"

text \<open>\<open>d.get(key, default)\<close>.\<close>

definition dict_get :: "'a option \<Rightarrow> 'a \<Rightarrow> 'a" where
  "dict_get v d = (case v of Some x \<Rightarrow> x | None \<Rightarrow> d)"

text \<open>
  The expression \<open>weight / ((height / 100) ** 2)\<close>: the division by 100 cannot
  raise, the square raises on overflow, and the last division raises when the square
  is zero.
\<close>

definition body_mass_index :: "health_metrics \<Rightarrow> exn + pyfloat" where
  "body_mass_index hm =
     (let weight = dict_get (weight hm) (Finite 70);
          height = dict_get (height hm) (Finite 170)
      in case truediv height (Finite 100) of
           Inl e \<Rightarrow> Inl e
         | Inr h \<Rightarrow>
             (case fpow2 h of
                Inl e \<Rightarrow> Inl e
              | Inr sq \<Rightarrow> truediv weight sq))"

text \<open>
  \<open>_mock_risk_calculation\<close>. The running value is rebound by each of the four
  \<open>if\<close>/\<open>elif\<close> statements; the statements before the BMI expression cannot raise.
  The risk type is not read. The result of \<open>max(0, min(1, base_risk))\<close> is the number
  returned, \<open>Finite 0\<close> and \<open>Finite 1\<close> standing for the integers 0 and 1.
\<close>

definition mock_risk_calculation ::
    "string \<Rightarrow> health_metrics \<Rightarrow> lifestyle_data \<Rightarrow> exn + pyfloat" where
  "mock_risk_calculation risk_type hm ld =
     (let base_risk = lit 0.1;
          age = dict_get (age ld) 40;
          base_risk = (if age > 65 then fadd base_risk (lit 0.1)
                       else if age > 45 then fadd base_risk (lit 0.05) else base_risk);
          bp_systolic = dict_get (blood_pressure_systolic hm) 120;
          base_risk = (if bp_systolic > 140 then fadd base_risk (lit 0.15)
                       else if bp_systolic > 130 then fadd base_risk (lit 0.08) else base_risk)
      in case body_mass_index hm of
           Inl e \<Rightarrow> Inl e
         | Inr bmi \<Rightarrow>
             (let base_risk = (if fgt bmi (Finite 30) then fadd base_risk (lit 0.12)
                               else if fgt bmi (Finite 25) then fadd base_risk (lit 0.06)
                               else base_risk);
                  activity_level = dict_get (physical_activity_level ld) ''moderate'';
                  base_risk = (if activity_level = ''sedentary'' then fadd base_risk (lit 0.08)
                               else if activity_level \<in> set [''very_active'', ''active'']
                                    then fsub base_risk (lit 0.05) else base_risk)
              in Inr (py_max (Finite 0) (py_min (Finite 1) base_risk))))"

text \<open>
  \<open>_calculate_overall_health_score\<close>: the dict of predictions is an association list
  in insertion order. For the empty dict the division of the integer sum 0 by the
  length 0 raises. The length converts to the float of the same value.
\<close>

definition calculate_overall_health_score ::
    "(pyfloat list \<Rightarrow> pyfloat) \<Rightarrow> (string \<times> pyfloat) list \<Rightarrow> exn + int" where
  "calculate_overall_health_score py_sum risk_predictions =
     (if length risk_predictions = 0 then Inl (ZeroDivisionError ''division by zero'')
      else
        case truediv (py_sum (map snd risk_predictions))
               (Finite (real (length risk_predictions))) of
          Inl e \<Rightarrow> Inl e
        | Inr avg_risk \<Rightarrow>
            (case py_int (fmul (fsub (Finite 1) avg_risk) (Finite 100)) of
               Inl e \<Rightarrow> Inl e
             | Inr health_score \<Rightarrow> Inr (max 0 (min 100 health_score))))"

text \<open>
  The aggregate score in the words of the specification: the rounded value of
  \<open>(1 - mean) * 100\<close>, on the exact values.
\<close>

definition spec_overall_health_score :: "(string \<times> real) list \<Rightarrow> int" where
  "spec_overall_health_score risk_predictions =
     round ((1 - sum_list (map snd risk_predictions) / real (length risk_predictions)) * 100)"

text \<open>
  The fallback score in the words of the specification: 0.10 plus one increment per
  factor, each added in turn, clamped to the unit interval. A factor that does not
  apply adds nothing, and a negative increment is the subtraction of its absolute
  value. The band written 45-65 is the \<open>elif\<close> branch below \<open>age > 65\<close>.
\<close>

definition increment :: "pyfloat \<Rightarrow> real option \<Rightarrow> pyfloat" where
  "increment x d = (case d of None \<Rightarrow> x | Some v \<Rightarrow> if v \<ge> 0 then fadd x (lit v) else fsub x (lit (- v)))"

definition spec_risk_score :: "int \<Rightarrow> int \<Rightarrow> pyfloat \<Rightarrow> string \<Rightarrow> pyfloat" where
  "spec_risk_score a bp bmi activity =
     py_max (Finite 0) (py_min (Finite 1)
       (increment
         (increment
           (increment
             (increment (lit 0.1)
               (if a > 65 then Some 0.1 else if a > 45 then Some 0.05 else None))
             (if bp > 140 then Some 0.15 else if bp > 130 then Some 0.08 else None))
           (if fgt bmi (Finite 30) then Some 0.12 else if fgt bmi (Finite 25) then Some 0.06 else None))
         (if activity = ''sedentary'' then Some 0.08
          else if activity = ''active'' \<or> activity = ''very_active'' then Some (- 0.05) else None)))"

section \<open>Activity detection service\<close>

text \<open>
  A sensor dict maps the axis names \<open>x\<close>, \<open>y\<close>, \<open>z\<close> to lists of readings. The numpy
  reductions are only called on a non-empty list (the source tests the list first), so
  they are defined on non-empty lists only. \<open>np.std\<close> is the population standard
  deviation. The readings, the statistics and the calorie estimate of this section are
  exact reals. They are the values of the floating-point computation wherever that
  computation is exact, as it is for the requests of the properties below: their
  samples are 0 and 2, so that every sum, mean, square, root and standard deviation
  is an integer, and their calorie estimate is \<open>1.0 * 0.7 * (60 / 60)\<close>, which is
  the number of the literal 0.7 in floating point as well. On other inputs the
  floating-point statistics can differ from the exact ones in the last place.
\<close>

type_synonym sensor_data = "string \<rightharpoonup> real list"

definition np_mean :: "real list \<Rightarrow> real" where
  "np_mean xs = sum_list xs / real (length xs)"

definition np_std :: "real list \<Rightarrow> real" where
  "np_std xs = sqrt (np_mean (map (\<lambda>x. (x - np_mean xs) ^ 2) xs))"

fun np_max :: "real list \<Rightarrow> real" where
  "np_max (x # xs) = fold max xs x"

fun np_min :: "real list \<Rightarrow> real" where
  "np_min (x # xs) = fold min xs x"

text \<open>
  Addition of two one-dimensional arrays with numpy's broadcasting: equal lengths add
  pointwise, a length-one array is added to every element of the other, and any other
  pair of lengths raises \<open>ValueError\<close>.
\<close>

definition np_add :: "real list \<Rightarrow> real list \<Rightarrow> exn + real list" where
  "np_add a b =
     (if length a = length b then Inr (map2 (+) a b)
      else if length a = 1 then Inr (map (\<lambda>y. hd a + y) b)
      else if length b = 1 then Inr (map (\<lambda>x. x + hd b) a)
      else Inl (ValueError ''operands could not be broadcast together''))"

text \<open>The four statistics of one axis, or four zeros when the key is absent or its list empty.\<close>

definition axis_features :: "sensor_data \<Rightarrow> string \<Rightarrow> real list" where
  "axis_features d axis =
     (case d axis of
        None \<Rightarrow> [0, 0, 0, 0]
      | Some xs \<Rightarrow> if xs = [] then [0, 0, 0, 0]
                   else [np_mean xs, np_std xs, np_max xs, np_min xs])"

text \<open>\<open>d.get(axis)\<close> used as a condition: the key is present and its list is not empty.\<close>

definition truthy :: "sensor_data \<Rightarrow> string \<Rightarrow> bool" where
  "truthy d axis = (case d axis of None \<Rightarrow> False | Some xs \<Rightarrow> xs \<noteq> [])"

text \<open>
  \<open>_extract_features\<close>: twelve accelerometer statistics, twelve gyroscope statistics,
  then the mean and standard deviation of the accelerometer magnitude. The duration is
  not read. \<open>np_magnitude\<close> is the expression
  \<open>np.sqrt(np.array(x)**2 + np.array(y)**2 + np.array(z)**2)\<close>, evaluated when all three
  lists are present and not empty.
\<close>

definition np_magnitude :: "sensor_data \<Rightarrow> exn + real list" where
  "np_magnitude accelerometer_data =
     (let sq = map (\<lambda>v. v ^ 2)
      in case np_add (sq (the (accelerometer_data ''x''))) (sq (the (accelerometer_data ''y''))) of
           Inl e \<Rightarrow> Inl e
         | Inr xy \<Rightarrow>
             (case np_add xy (sq (the (accelerometer_data ''z''))) of
                Inl e \<Rightarrow> Inl e
              | Inr xyz \<Rightarrow> Inr (map sqrt xyz)))"

definition extract_features :: "sensor_data \<Rightarrow> sensor_data \<Rightarrow> int \<Rightarrow> exn + real list" where
  "extract_features accelerometer_data gyroscope_data duration =
     (let features = concat (map (axis_features accelerometer_data) [''x'', ''y'', ''z'']);
          features = features @ concat (map (axis_features gyroscope_data) [''x'', ''y'', ''z''])
      in if truthy accelerometer_data ''x'' \<and> truthy accelerometer_data ''y''
            \<and> truthy accelerometer_data ''z''
         then
           (case np_magnitude accelerometer_data of
              Inl e \<Rightarrow> Inl e
            | Inr magnitude \<Rightarrow> Inr (features @ [np_mean magnitude, np_std magnitude]))
         else Inr (features @ [0, 0]))"

text \<open>
  \<open>_mock_prediction\<close>: the two values called magnitude mean and magnitude standard
  deviation are read at indices 0 and 1 of the feature list.
\<close>

definition mock_prediction :: "real list \<Rightarrow> string \<times> real" where
  "mock_prediction features =
     (let acc_magnitude_mean = (if length features > 0 then features ! 0 else 0);
          acc_magnitude_std = (if length features > 1 then features ! 1 else 0)
      in if acc_magnitude_mean > 0.5 \<and> acc_magnitude_std > 0.3 then (''running'', 0.85)
         else if acc_magnitude_mean > 0.2 \<and> acc_magnitude_std > 0.1 then (''walking'', 0.80)
         else if acc_magnitude_mean < 0.1 \<and> acc_magnitude_std < 0.05 then (''sitting'', 0.90)
         else (''standing'', 0.75))"

definition calculate_intensity :: "real list \<Rightarrow> string" where
  "calculate_intensity features =
     (if length features < 2 then ''unknown''
      else
        let acc_magnitude_mean = features ! 0;
            acc_magnitude_std = features ! 1
        in if acc_magnitude_mean > 0.5 \<or> acc_magnitude_std > 0.4 then ''high''
           else if acc_magnitude_mean > 0.2 \<or> acc_magnitude_std > 0.15 then ''moderate''
           else ''low'')"

text \<open>
  \<open>round(x, 1)\<close> on the exact value: to one decimal, a tie going to the even
  neighbour.
\<close>

definition py_round1 :: "real \<Rightarrow> real" where
  "py_round1 x = of_int (round_half_even (x * 10)) / 10"

definition estimate_calories :: "string \<Rightarrow> int \<Rightarrow> string \<Rightarrow> real" where
  "estimate_calories activity duration intensity =
     (let base_rate = (case map_of
            [ (''walking'', 3.5), (''running'', 8.0), (''cycling'', 6.0), (''swimming'', 7.0),
              (''sitting'', 1.0), (''standing'', 1.2), (''lying_down'', 0.8),
              (''stairs_up'', 9.0), (''stairs_down'', 4.0), (''jumping'', 10.0) ] activity
            of Some r \<Rightarrow> r | None \<Rightarrow> 2.0);
          intensity_multiplier = (case map_of
            [ (''low'', 0.7), (''moderate'', 1.0), (''high'', 1.3) ] intensity
            of Some m \<Rightarrow> m | None \<Rightarrow> 1.0);
          calories_per_minute = base_rate * intensity_multiplier;
          total_calories = calories_per_minute * (real_of_int duration / 60)
      in py_round1 total_calories)"

definition activities :: "string list" where
  "activities = [''walking'', ''running'', ''cycling'', ''swimming'', ''sitting'',
                 ''standing'', ''lying_down'', ''stairs_up'', ''stairs_down'', ''jumping'']"

text \<open>\<open>str(e)\<close> of a built-in exception raised with one message argument.\<close>

fun str_exn :: "exn \<Rightarrow> string" where
  "str_exn (Exception m) = m"
| "str_exn (ValueError m) = m"
| "str_exn (IndexError m) = m"
| "str_exn (ZeroDivisionError m) = m"
| "str_exn (OverflowError m) = m"

record activity_result =
  predicted_activity :: string
  confidence :: real
  top_predictions :: "(string \<times> real) list"
  duration_seconds :: int
  intensity_level :: string
  estimated_calories :: real
  features_extracted :: nat
  processing_time_ms :: int

text \<open>
  The fitted scaler and classifier are library objects: \<open>classifier\<close> stands for
  \<open>scaler.transform\<close> followed by \<open>predict_proba\<close> on one feature vector, which
  returns the class probabilities or raises. The service holds \<open>None\<close> when the
  initialisation failed.
\<close>

type_synonym classifier = "real list \<Rightarrow> exn + real list"

text \<open>
  The prediction step of \<open>detect_activity\<close>: with a model, the activities zipped with
  the probabilities and sorted by decreasing probability (a stable sort), the first
  pair and the first three pairs; without one, the fallback.
\<close>

definition predict :: "classifier option \<Rightarrow> real list \<Rightarrow> exn + (string \<times> real \<times> (string \<times> real) list)" where
  "predict model features =
     (case model of
        Some clf \<Rightarrow>
          (case clf features of
             Inl e \<Rightarrow> Inl e
           | Inr probabilities \<Rightarrow>
               (let activity_probs = sort_key (\<lambda>p. - snd p) (zip activities probabilities)
                in case activity_probs of
                     [] \<Rightarrow> Inl (IndexError ''list index out of range'')
                   | best # _ \<Rightarrow> Inr (fst best, snd best, take 3 activity_probs)))
      | None \<Rightarrow>
          (let (activity, conf) = mock_prediction features
           in Inr (activity, conf, [(activity, conf)])))"

text \<open>
  \<open>detect_activity\<close> of the service. \<open>ptime\<close> is the value \<open>random.randint(50, 200)\<close>
  returns. Whatever is raised inside is caught and raised again as a plain
  \<open>Exception\<close> with the prefixed message. The user id is only logged.
\<close>

definition detect_activity ::
    "classifier option \<Rightarrow> int \<Rightarrow> sensor_data \<Rightarrow> sensor_data \<Rightarrow> int \<Rightarrow> string option
     \<Rightarrow> exn + activity_result" where
  "detect_activity model ptime accelerometer_data gyroscope_data duration uid =
     (case
        (case extract_features accelerometer_data gyroscope_data duration of
           Inl e \<Rightarrow> Inl e
         | Inr features \<Rightarrow>
             (case predict model features of
                Inl e \<Rightarrow> Inl e
              | Inr (activity, conf, top3) \<Rightarrow>
                  (let intensity = calculate_intensity features;
                       calories_burned = estimate_calories activity duration intensity
                   in Inr \<lparr>predicted_activity = activity,
                           confidence = conf,
                           top_predictions = top3,
                           duration_seconds = duration,
                           intensity_level = intensity,
                           estimated_calories = calories_burned,
                           features_extracted = length features,
                           processing_time_ms = ptime\<rparr>)))
      of Inl e \<Rightarrow> Inl (Exception (''Activity detection failed: '' @ str_exn e))
       | Inr result \<Rightarrow> Inr result)"

section \<open>Activity detection routes\<close>

record activity_data =
  accelerometer_x :: "real list"
  accelerometer_y :: "real list"
  accelerometer_z :: "real list"
  gyroscope_x :: "real list"
  gyroscope_y :: "real list"
  gyroscope_z :: "real list"
  timestamp :: "real list"
  user_id :: "string option"

record activity_request =
  data :: activity_data
  duration_seconds :: int
  user_id :: "string option"

text \<open>Ten samples at rest on the x and y axes, the z axis alternating between 0 and 2.\<close>

definition request_z_swing :: activity_request where
  "request_z_swing =
     \<lparr>data = \<lparr>accelerometer_x = [0, 0, 0, 0, 0, 0, 0, 0, 0, 0],
               accelerometer_y = [0, 0, 0, 0, 0, 0, 0, 0, 0, 0],
               accelerometer_z = [0, 2, 0, 2, 0, 2, 0, 2, 0, 2],
               gyroscope_x = [], gyroscope_y = [], gyroscope_z = [],
               timestamp = [0, 1, 2, 3, 4, 5, 6, 7, 8, 9],
               user_id = None\<rparr>,
      duration_seconds = 60, user_id = None\<rparr>"

text \<open>Twelve samples at rest, and five samples at rest.\<close>

definition request_full :: activity_request where
  "request_full =
     \<lparr>data = \<lparr>accelerometer_x = [0, 0, 0, 0, 0, 0, 0, 0, 0, 0, 0, 0],
               accelerometer_y = [0, 0, 0, 0, 0, 0, 0, 0, 0, 0, 0, 0],
               accelerometer_z = [0, 0, 0, 0, 0, 0, 0, 0, 0, 0, 0, 0],
               gyroscope_x = [], gyroscope_y = [], gyroscope_z = [],
               timestamp = [0, 1, 2, 3, 4, 5, 6, 7, 8, 9, 10, 11],
               user_id = None\<rparr>,
      duration_seconds = 60, user_id = None\<rparr>"

definition request_short :: activity_request where
  "request_short =
     \<lparr>data = \<lparr>accelerometer_x = [0, 0, 0, 0, 0],
               accelerometer_y = [0, 0, 0, 0, 0],
               accelerometer_z = [0, 0, 0, 0, 0],
               gyroscope_x = [], gyroscope_y = [], gyroscope_z = [],
               timestamp = [0, 1, 2, 3, 4],
               user_id = None\<rparr>,
      duration_seconds = 60, user_id = None\<rparr>"

text \<open>The response envelope, a dict with the keys \<open>success\<close> and \<open>data\<close>.\<close>

record 'a envelope =
  success :: bool
  data :: 'a

text \<open>What a route raises to the framework: the status code and the detail.\<close>

datatype http_exception = HTTPException nat string

text \<open>
  The two sensor dicts the routes build from a request, and the call of the service
  with them.
\<close>

definition accelerometer_dict :: "activity_request \<Rightarrow> sensor_data" where
  "accelerometer_dict request =
     map_of [ (''x'', accelerometer_x (activity_request.data request)),
              (''y'', accelerometer_y (activity_request.data request)),
              (''z'', accelerometer_z (activity_request.data request)) ]"

definition gyroscope_dict :: "activity_request \<Rightarrow> sensor_data" where
  "gyroscope_dict request =
     map_of [ (''x'', gyroscope_x (activity_request.data request)),
              (''y'', gyroscope_y (activity_request.data request)),
              (''z'', gyroscope_z (activity_request.data request)) ]"

definition call_service :: "classifier option \<Rightarrow> int \<Rightarrow> activity_request \<Rightarrow> exn + activity_result" where
  "call_service model ptime request =
     detect_activity model ptime (accelerometer_dict request) (gyroscope_dict request)
       (activity_request.duration_seconds request)
       (activity_request.user_id request)"

text \<open>
  The route \<open>detect_activity\<close> (\<open>POST /\<close>). The validation raises an \<open>HTTPException\<close>
  with status 400 inside the \<open>try\<close> block; the handler \<open>except Exception\<close> catches
  every exception raised in the block, this one included, and raises an
  \<open>HTTPException\<close> with status 500 whose detail quotes \<open>str(e)\<close>. The rendering of an
  \<open>HTTPException\<close> by \<open>str\<close> belongs to the framework and is the parameter
  \<open>http_str\<close>.
\<close>

definition detect_activity_route ::
    "(http_exception \<Rightarrow> string) \<Rightarrow> classifier option \<Rightarrow> int \<Rightarrow> activity_request
     \<Rightarrow> http_exception + activity_result envelope" where
  "detect_activity_route http_str model ptime request =
     (case
        (if length (accelerometer_x (activity_request.data request)) < 10
         then Inl (Inl (HTTPException 400 ''Insufficient sensor data''))
         else (case call_service model ptime request of
                 Inl e \<Rightarrow> Inl (Inr e)
               | Inr result \<Rightarrow> Inr \<lparr>success = True, data = result\<rparr>))
      of Inl raised \<Rightarrow>
           Inl (HTTPException 500
                  (''Activity detection failed: '' @
                   (case raised of Inl h \<Rightarrow> http_str h | Inr e \<Rightarrow> str_exn e)))
       | Inr response \<Rightarrow> Inr response)"

text \<open>
  One entry of the batch result: the sample id with either the key \<open>result\<close> or the
  key \<open>error\<close>.
\<close>

datatype batch_entry =
    ResultEntry nat activity_result
  | ErrorEntry nat string

fun sample_id :: "batch_entry \<Rightarrow> nat" where
  "sample_id (ResultEntry i r) = i"
| "sample_id (ErrorEntry i m) = i"

fun has_error :: "batch_entry \<Rightarrow> bool" where
  "has_error (ResultEntry i r) = False"
| "has_error (ErrorEntry i m) = True"

record batch_data =
  results :: "batch_entry list"
  total_samples :: nat

text \<open>
  The body of the loop of \<open>detect_activity_batch\<close>: the inner \<open>try\<close> turns the outcome
  of the service call for sample \<open>i\<close> into an entry with the result, or with the message
  of the exception.
\<close>

definition entry :: "nat \<Rightarrow> exn + activity_result \<Rightarrow> batch_entry" where
  "entry i outcome =
     (case outcome of
        Inr result \<Rightarrow> ResultEntry i result
      | Inl e \<Rightarrow> ErrorEntry i (str_exn e))"

text \<open>
  The loop over \<open>enumerate(requests)\<close>, from index \<open>i\<close> on: each request goes to the
  service as it is. \<open>rnd i\<close> is the processing time drawn for item \<open>i\<close>.
\<close>

fun batch_loop :: "classifier option \<Rightarrow> (nat \<Rightarrow> int) \<Rightarrow> nat \<Rightarrow> activity_request list \<Rightarrow> batch_entry list" where
  "batch_loop model rnd i [] = []"
| "batch_loop model rnd i (request # rest) =
     entry i (call_service model (rnd i) request) # batch_loop model rnd (Suc i) rest"

text \<open>
  The route \<open>detect_activity_batch\<close> (\<open>POST /batch\<close>). Nothing in the outer \<open>try\<close>
  block raises outside the inner handler, so the route always returns the envelope.
\<close>

definition detect_activity_batch ::
    "classifier option \<Rightarrow> (nat \<Rightarrow> int) \<Rightarrow> activity_request list
     \<Rightarrow> http_exception + batch_data envelope" where
  "detect_activity_batch model rnd requests =
     (let results = batch_loop model rnd 0 requests
      in Inr \<lparr>success = True,
              data = \<lparr>results = results, total_samples = length results\<rparr>\<rparr>)"

section \<open>Chat service\<close>

subsection \<open>The environment: clock, identifiers, random draws\<close>

text \<open>
  The service reads the clock (\<open>datetime.now()\<close>), draws identifiers
  (\<open>uuid.uuid4()\<close>) and draws random elements (\<open>random.choice\<close>). Each source is a
  stream of the values still to come; a read takes the head and leaves the tail. A
  \<open>datetime\<close> is a clock reading of type \<open>time\<close>, a UUID is its 128-bit value.
\<close>

type_synonym time = nat

record env =
  clock :: "time stream"
  uuids :: "128 word stream"
  rands :: "nat stream"

definition datetime_now :: "env \<Rightarrow> time \<times> env" where
  "datetime_now e = (shd (clock e), e\<lparr>clock := stl (clock e)\<rparr>)"

definition uuid4 :: "env \<Rightarrow> 128 word \<times> env" where
  "uuid4 e = (shd (uuids e), e\<lparr>uuids := stl (uuids e)\<rparr>)"

text \<open>\<open>random.choice\<close> on a non-empty list: the draw selects an index.\<close>

definition random_choice :: "'a list \<Rightarrow> env \<Rightarrow> 'a \<times> env" where
  "random_choice xs e = (xs ! (shd (rands e) mod length xs), e\<lparr>rands := stl (rands e)\<rparr>)"

text \<open>
  \<open>str\<close> of a UUID: its 32 hexadecimal digits, most significant first, in groups of
  8, 4, 4, 4 and 12 separated by hyphens.
\<close>

definition hex_digit :: "nat \<Rightarrow> char" where
  "hex_digit n = ''0123456789abcdef'' ! n"

definition hex_digits :: "128 word \<Rightarrow> string" where
  "hex_digits w = map (\<lambda>i. hex_digit (unat (drop_bit (4 * (31 - i)) w AND 15))) [0..<32]"

definition str_uuid :: "128 word \<Rightarrow> string" where
  "str_uuid w =
     (let h = hex_digits w
      in take 8 h @ ''-'' @ take 4 (drop 8 h) @ ''-'' @ take 4 (drop 12 h) @ ''-''
         @ take 4 (drop 16 h) @ ''-'' @ drop 20 h)"

subsection \<open>Conversations\<close>

text \<open>
  A stored message keeps the clock reading whose ISO rendering the source stores.
\<close>

record chat_message =
  message :: string
  is_user :: bool
  timestamp :: time
  user_id :: string

text \<open>
  The key \<open>context\<close> of a conversation is the field \<open>context_tag\<close>, and the key
  \<open>context\<close> of a response or a reply is the field \<open>context_data\<close>, since \<open>context\<close> is
  a reserved word.
\<close>

record conversation =
  user_id :: string
  context_tag :: string
  messages :: "chat_message list"
  created_at :: time
  last_activity :: time

text \<open>The service object: the dict \<open>self.conversations\<close>, keyed by conversation id.\<close>

record chat_service =
  conversations :: "string \<rightharpoonup> conversation"

record context_info =
  description :: string
  personality :: string
  expertise :: "string list"

definition contexts :: "(string \<times> context_info) list" where
  "contexts =
     [ (''health_coaching'',
          \<lparr>description = ''General health and wellness coaching'',
           personality = ''supportive and knowledgeable'',
           expertise = [''nutrition'', ''exercise'', ''sleep'', ''stress_management'']\<rparr>),
       (''diabetes_management'',
          \<lparr>description = ''Specialized diabetes care and management'',
           personality = ''clinical and precise'',
           expertise = [''blood_glucose'', ''medication'', ''diet'', ''complications'']\<rparr>),
       (''cardiovascular_health'',
          \<lparr>description = ''Heart health and cardiovascular disease prevention'',
           personality = ''encouraging and evidence-based'',
           expertise = [''blood_pressure'', ''cholesterol'', ''exercise'', ''diet'']\<rparr>),
       (''mental_wellness'',
          \<lparr>description = ''Mental health and emotional well-being support'',
           personality = ''empathetic and understanding'',
           expertise = [''stress'', ''anxiety'', ''depression'', ''mindfulness'']\<rparr>) ]"

text \<open>\<open>start_conversation\<close>: a fresh id, a new entry with no messages, two clock reads.\<close>

definition start_conversation ::
    "string \<Rightarrow> string \<Rightarrow> chat_service \<times> env \<Rightarrow> string \<times> chat_service \<times> env" where
  "start_conversation uid ctx st =
     (let (s, e) = st;
          (u, e) = uuid4 e;
          conversation_id = str_uuid u;
          (t_created, e) = datetime_now e;
          (t_activity, e) = datetime_now e
      in (conversation_id,
          s\<lparr>conversations := (conversations s)(conversation_id \<mapsto>
               \<lparr>user_id = uid, context_tag = ctx, messages = [],
                created_at = t_created, last_activity = t_activity\<rparr>)\<rparr>,
          e))"

text \<open>\<open>get_conversation_history\<close>: a read of the store.\<close>

definition get_conversation_history :: "string \<Rightarrow> chat_service \<Rightarrow> exn + chat_message list" where
  "get_conversation_history conversation_id s =
     (case conversations s conversation_id of
        None \<Rightarrow> Inl (ValueError ''Conversation not found'')
      | Some c \<Rightarrow> Inr (messages c))"

definition delete_conversation :: "string \<Rightarrow> chat_service \<Rightarrow> chat_service" where
  "delete_conversation conversation_id s =
     (if conversation_id \<in> dom (conversations s)
      then s\<lparr>conversations := (conversations s)(conversation_id := None)\<rparr>
      else s)"

text \<open>
  \<open>_store_message\<close>: nothing happens for an id that is not in the store; otherwise the
  message is appended and the last activity updated, with one clock read each.
\<close>

definition store_message ::
    "string \<Rightarrow> string \<Rightarrow> bool \<Rightarrow> string \<Rightarrow> chat_service \<times> env \<Rightarrow> chat_service \<times> env" where
  "store_message conversation_id msg is_usr uid st =
     (let (s, e) = st
      in case conversations s conversation_id of
           None \<Rightarrow> (s, e)
         | Some c \<Rightarrow>
             (let (t_message, e) = datetime_now e;
                  (t_activity, e) = datetime_now e
              in (s\<lparr>conversations := (conversations s)(conversation_id \<mapsto>
                       c\<lparr>messages := messages c @
                            [\<lparr>message = msg, is_user = is_usr, timestamp = t_message,
                              user_id = uid\<rparr>],
                         last_activity := t_activity\<rparr>)\<rparr>,
                  e)))"

subsection \<open>Response generation\<close>

text \<open>\<open>sub in s\<close> on strings: \<open>sub\<close> occurs in \<open>s\<close> as a contiguous substring.\<close>

fun starts_with :: "string \<Rightarrow> string \<Rightarrow> bool" where
  "starts_with [] s = True"
| "starts_with (a # sub) [] = False"
| "starts_with (a # sub) (c # s) = (a = c \<and> starts_with sub s)"

fun str_in :: "string \<Rightarrow> string \<Rightarrow> bool" where
  "str_in sub [] = (sub = [])"
| "str_in sub (c # s) = (starts_with sub (c # s) \<or> str_in sub s)"

definition workout_responses :: "string list" where
  "workout_responses =
     [ ''I'd be happy to help with your workout routine! Based on your health profile, I '' @
         ''recommend starting with low-impact cardio exercises like walking or swimming. Wo'' @
         ''uld you like me to create a personalized workout plan for you?'',
       ''Great question about exercise! For optimal health, aim for at least 150 minutes '' @
         ''of moderate-intensity activity per week. I can help you design a program that fi'' @
         ''ts your fitness level and goals.'',
       ''Exercise is crucial for maintaining good health! Let's discuss your current fitn'' @
         ''ess level and any health conditions to create the best workout plan for you.'' ]"

definition diet_responses :: "string list" where
  "diet_responses =
     [ ''Nutrition is a key pillar of good health! I recommend focusing on whole foods li'' @
         ''ke vegetables, lean proteins, and complex carbohydrates. What specific dietary g'' @
         ''oals are you working towards?'',
       ''Great question about nutrition! A balanced diet with plenty of fruits, vegetable'' @
         ''s, and lean proteins can significantly improve your health. I can help you track'' @
         '' your meals and suggest healthy alternatives.'',
       ''Food choices have a huge impact on your health! Let's discuss your current eatin'' @
         ''g habits and create a plan that works for your lifestyle and health goals.'' ]"

definition heart_responses :: "string list" where
  "heart_responses =
     [ ''Managing cardiovascular health is crucial! Regular exercise, a balanced diet, an'' @
         ''d stress management can help maintain healthy blood pressure. I recommend monito'' @
         ''ring your readings and consulting with your healthcare provider.'',
       ''Heart health is so important! Lifestyle changes like reducing sodium, increasing'' @
         '' physical activity, and managing stress can make a big difference. Would you lik'' @
         ''e tips for heart-healthy lifestyle changes?'',
       ''Your cardiovascular health is a priority! I can help you understand your risk fa'' @
         ''ctors and create a plan to improve your heart health through diet, exercise, and'' @
         '' lifestyle modifications.'' ]"

definition sleep_responses :: "string list" where
  "sleep_responses =
     [ ''Quality sleep is essential for overall health! Try maintaining a consistent slee'' @
         ''p schedule, creating a relaxing bedtime routine, and avoiding screens before bed'' @
         ''. I can help you track your sleep patterns and suggest improvements.'',
       ''Sleep is when your body repairs and rejuvenates! Aim for 7-9 hours of quality sl'' @
         ''eep per night. Let's discuss your current sleep habits and create a plan for bet'' @
         ''ter rest.'',
       ''Good sleep is foundational to good health! I can help you optimize your sleep en'' @
         ''vironment and routine. How many hours of sleep are you currently getting?'' ]"

definition stress_responses :: "string list" where
  "stress_responses =
     [ ''Mental wellness is just as important as physical health! Consider incorporating '' @
         ''mindfulness practices, deep breathing exercises, or gentle yoga into your routin'' @
         ''e. I'm here to support your mental health journey.'',
       ''Stress management is crucial for overall well-being! I can teach you relaxation '' @
         ''techniques and help you develop healthy coping strategies. What's causing you th'' @
         ''e most stress right now?'',
       ''Your mental health matters! Let's work together to develop stress management tec'' @
         ''hniques that fit your lifestyle. Remember, it's okay to seek professional help w'' @
         ''hen needed.'' ]"

definition weight_responses :: "string list" where
  "weight_responses =
     [ ''Healthy weight management involves a combination of balanced nutrition and regul'' @
         ''ar physical activity. Remember, sustainable changes work best! I can help you se'' @
         ''t realistic goals and track your progress.'',
       ''Weight management is about creating healthy habits that last! Focus on nourishin'' @
         ''g your body with whole foods and staying active. What's your current approach to'' @
         '' weight management?'',
       ''Let's create a sustainable plan for healthy weight management! I'll help you set'' @
         '' realistic goals and develop habits that support your long-term health and well-'' @
         ''being.'' ]"

definition diabetes_responses :: "string list" where
  "diabetes_responses =
     [ ''Diabetes management requires careful attention to diet, exercise, and blood gluc'' @
         ''ose monitoring. I can help you understand how different foods and activities aff'' @
         ''ect your blood sugar levels.'',
       ''Managing diabetes effectively involves balancing medication, diet, and lifestyle'' @
         ''. Let's create a comprehensive plan that helps you maintain stable blood glucose'' @
         '' levels.'',
       ''I'm here to support your diabetes management journey! Together, we can develop s'' @
         ''trategies for healthy eating, regular exercise, and effective blood glucose moni'' @
         ''toring.'' ]"

definition default_responses :: "string list" where
  "default_responses =
     [ ''I'm here to help with your health and wellness journey! I can provide guidance o'' @
         ''n exercise, nutrition, sleep, stress management, and more. What specific aspect '' @
         ''of your health would you like to focus on today?'',
       ''Your health is my priority! I can assist with personalized advice on fitness, nu'' @
         ''trition, mental wellness, and chronic disease management. What would you like to'' @
         '' work on together?'',
       ''I'm your personal health coach, ready to support you! Whether it's improving you'' @
         ''r fitness, optimizing your nutrition, or managing stress, I'm here to help you a'' @
         ''chieve your health goals.'' ]"

text \<open>
  \<open>_generate_contextual_response\<close>: the first topic whose keyword occurs in the
  message selects the list, and one of its entries is drawn. The context information is
  read but does not influence the choice.
\<close>

definition generate_contextual_response :: "string \<Rightarrow> context_info \<Rightarrow> env \<Rightarrow> string \<times> env" where
  "generate_contextual_response msg info e =
     (let responses =
            (if str_in ''workout'' msg \<or> str_in ''exercise'' msg then workout_responses
             else if str_in ''diet'' msg \<or> str_in ''food'' msg \<or> str_in ''meal'' msg
                  then diet_responses
             else if str_in ''blood pressure'' msg \<or> str_in ''heart'' msg then heart_responses
             else if str_in ''sleep'' msg \<or> str_in ''insomnia'' msg then sleep_responses
             else if str_in ''stress'' msg \<or> str_in ''anxiety'' msg then stress_responses
             else if str_in ''weight'' msg \<or> str_in ''lose'' msg \<or> str_in ''gain'' msg
                  then weight_responses
             else if str_in ''diabetes'' msg then diabetes_responses
             else default_responses)
      in random_choice responses e)"

text \<open>\<open>_generate_suggestions\<close>: the first three entries of the list of the matching topic.\<close>

definition generate_suggestions :: "string \<Rightarrow> string \<Rightarrow> string list" where
  "generate_suggestions msg ctx =
     (let suggestions =
            (if str_in ''workout'' msg \<or> str_in ''exercise'' msg
             then [''Create a personalized workout plan'',
                   ''Learn about different exercise types'',
                   ''Track your fitness progress'']
             else if str_in ''diet'' msg \<or> str_in ''food'' msg
             then [''Get nutrition analysis for your meals'',
                   ''Learn about healthy food choices'',
                   ''Create a meal planning strategy'']
             else if str_in ''sleep'' msg
             then [''Improve your sleep hygiene'',
                   ''Track your sleep patterns'',
                   ''Learn relaxation techniques'']
             else if str_in ''stress'' msg
             then [''Practice mindfulness exercises'',
                   ''Learn stress management techniques'',
                   ''Create a self-care routine'']
             else [''Set health goals'',
                   ''Track your progress'',
                   ''Get personalized recommendations''])
      in take 3 suggestions)"

record response_context =
  context_type :: string
  personality :: string
  expertise :: "string list"

record response =
  message :: string
  suggestions :: "string list"
  context_data :: response_context

text \<open>
  \<open>_generate_response\<close>: an unknown context falls back to the information of
  \<open>health_coaching\<close>, which is in the table.
\<close>

definition generate_response ::
    "(string \<Rightarrow> string) \<Rightarrow> string \<Rightarrow> string \<Rightarrow> string \<Rightarrow> env \<Rightarrow> response \<times> env" where
  "generate_response str_lower msg ctx conversation_id e =
     (let message_lower = str_lower msg;
          info = (case map_of contexts ctx of
                    Some i \<Rightarrow> i
                  | None \<Rightarrow> the (map_of contexts ''health_coaching''));
          (text, e) = generate_contextual_response message_lower info e;
          suggested = generate_suggestions message_lower ctx
      in (\<lparr>message = text, suggestions = suggested,
           context_data = \<lparr>context_type = ctx,
                      personality = context_info.personality info,
                      expertise = context_info.expertise info\<rparr>\<rparr>,
          e))"

record chat_reply =
  message :: string
  conversation_id :: string
  suggestions :: "string list"
  context_data :: response_context

text \<open>
  \<open>process_message\<close>. \<open>not conversation_id\<close> holds for \<open>None\<close> and for the empty
  string; in both cases a conversation is started. None of the calls inside the
  \<open>try\<close> block raises, so the handler is never entered and the call returns the reply.
\<close>

definition process_message ::
    "(string \<Rightarrow> string) \<Rightarrow> string \<Rightarrow> string \<Rightarrow> string \<Rightarrow> string option
     \<Rightarrow> chat_service \<times> env \<Rightarrow> (exn + chat_reply) \<times> chat_service \<times> env" where
  "process_message str_lower msg uid ctx conv_id st =
     (let (cid, st) = (case conv_id of
                         None \<Rightarrow> start_conversation uid ctx st
                       | Some c \<Rightarrow> if c = [] then start_conversation uid ctx st else (c, st));
          (s, e) = store_message cid msg True uid st;
          (r, e) = generate_response str_lower msg ctx cid e;
          (s, e) = store_message cid (response.message r) False uid (s, e)
      in (Inr \<lparr>message = response.message r,
               conversation_id = cid,
               suggestions = response.suggestions r,
               context_data = response.context_data r\<rparr>,
          s, e))"

subsection \<open>Reachable states of the conversation store\<close>

text \<open>
  The states the service can be in, starting from the empty store, under the five
  operations on conversations. Beside the state runs a record \<open>created\<close> that is not
  part of the program: it maps an id to the context that was passed to the
  \<open>start_conversation\<close> call which created the conversation stored under that id,
  directly or from \<open>process_message\<close> called without an id.
\<close>

inductive reachable ::
    "(string \<Rightarrow> string) \<Rightarrow> chat_service \<times> env \<Rightarrow> (string \<rightharpoonup> string) \<Rightarrow> bool"
  for str_lower :: "string \<Rightarrow> string" where
  init:
    "reachable str_lower (\<lparr>conversations = Map.empty\<rparr>, e) Map.empty"
| start:
    "reachable str_lower st created \<Longrightarrow> start_conversation uid ctx st = (cid, st')
     \<Longrightarrow> reachable str_lower st' (created(cid \<mapsto> ctx))"
| process_new:
    "reachable str_lower st created \<Longrightarrow> conv_id = None \<or> conv_id = Some []
     \<Longrightarrow> process_message str_lower msg uid ctx conv_id st = (Inr r, st')
     \<Longrightarrow> reachable str_lower st' (created(conversation_id r \<mapsto> ctx))"
| process_existing:
    "reachable str_lower st created \<Longrightarrow> conv_id = Some c \<Longrightarrow> c \<noteq> []
     \<Longrightarrow> process_message str_lower msg uid ctx conv_id st = (Inr r, st')
     \<Longrightarrow> reachable str_lower st' created"
| store:
    "reachable str_lower st created
     \<Longrightarrow> reachable str_lower (store_message cid msg is_usr uid st) created"
| history:
    "reachable str_lower st created \<Longrightarrow> get_conversation_history cid (fst st) = h
     \<Longrightarrow> reachable str_lower st created"
| delete:
    "reachable str_lower (s, e) created
     \<Longrightarrow> reachable str_lower (delete_conversation cid s, e) created"

text \<open>
  The context of the conversation stored under an id, if there is one, and the empty
  service and an environment for examples: the clock counts from 0, every identifier
  drawn is 0, every random draw is 0.
\<close>

definition ctx_of :: "chat_service \<Rightarrow> string \<rightharpoonup> string" where
  "ctx_of s k = map_option context_tag (conversations s k)"

definition empty_service :: chat_service where
  "empty_service = \<lparr>conversations = Map.empty\<rparr>"

definition example_env :: env where
  "example_env = \<lparr>clock = siterate Suc 0, uuids = sconst 0, rands = sconst 0\<rparr>"

text \<open>The threshold ladder of the fallback prediction, on a mean and a standard deviation.\<close>

definition threshold_ladder :: "real \<Rightarrow> real \<Rightarrow> string \<times> real" where
  "threshold_ladder m s =
     (if m > 0.5 \<and> s > 0.3 then (''running'', 0.85)
      else if m > 0.2 \<and> s > 0.1 then (''walking'', 0.80)
      else if m < 0.1 \<and> s < 0.05 then (''sitting'', 0.90)
      else (''standing'', 0.75))"

text \<open>
  The magnitude of the accelerometer vector, sample by sample, for three lists of the
  same length.
\<close>

definition acc_magnitude :: "real list \<Rightarrow> real list \<Rightarrow> real list \<Rightarrow> real list" where
  "acc_magnitude xs ys zs = map (\<lambda>(x, y, z). sqrt (x ^ 2 + y ^ 2 + z ^ 2)) (zip xs (zip ys zs))"

section \<open>Properties of the food recognition service\<close>

text \<open>
  An \<open>if\<close>/\<open>elif\<close> statement that adds to or subtracts from a running value adds one
  delta to it.
\<close>

lemma if_add_delta:
  fixes x :: "'a :: comm_monoid_add"
  shows "(if c then x + a else if d then x + b else x) =
         x + (if c then a else if d then b else 0)"
  by simp

lemma if_sub_delta:
  fixes x :: "'a :: ab_group_add"
  shows "(if c then x - a else if d then x - b else x) =
         x + (if c then - a else if d then - b else 0)"
  by simp

text \<open>
  C1, as amended. The health score of every nutrition record is 100 plus the four
  threshold deltas (calories above 300: -20, above 200: -10; protein above 20: +10,
  above 10: +5; fat above 15: -15, above 10: -10; fiber above 5: +10, above 2: +5),
  clamped to the range 0..100. For calories 266, protein 11, fat 10 and fiber 2.3 the
  score is 100: the calories take 10, the protein adds 5, a fat value of 10 is not above
  10, and the fiber adds 5, so the sum 100 is left as it is by the clamp.
\<close>

theorem calculate_health_score_table:
  "calculate_health_score n =
     max 0 (min 100 (100
       + (if calories n > 300 then - 20 else if calories n > 200 then - 10 else 0)
       + (if protein n > 20 then 10 else if protein n > 10 then 5 else 0)
       + (if fat n > 15 then - 15 else if fat n > 10 then - 10 else 0)
       + (if fiber n > 5 then 10 else if fiber n > 2 then 5 else 0)))
   \<and> 0 \<le> calculate_health_score n \<and> calculate_health_score n \<le> 100
   \<and> calculate_health_score
         \<lparr>calories = 266, protein = 11, carbs = c, fat = 10, fiber = 2.3,
          vitamins = v, confidence_threshold = t\<rparr> = 100"
proof (intro conjI)
  show "calculate_health_score n =
     max 0 (min 100 (100
       + (if calories n > 300 then - 20 else if calories n > 200 then - 10 else 0)
       + (if protein n > 20 then 10 else if protein n > 10 then 5 else 0)
       + (if fat n > 15 then - 15 else if fat n > 10 then - 10 else 0)
       + (if fiber n > 5 then 10 else if fiber n > 2 then 5 else 0)))"
    unfolding calculate_health_score_def Let_def if_add_delta if_sub_delta ..
  show "0 \<le> calculate_health_score n"
    unfolding calculate_health_score_def Let_def by (rule max.cobounded1)
  show "calculate_health_score n \<le> 100"
    unfolding calculate_health_score_def Let_def by (rule max.boundedI) simp_all
  show "calculate_health_score
         \<lparr>calories = 266, protein = 11, carbs = c, fat = 10, fiber = 2.3,
          vitamins = v, confidence_threshold = t\<rparr> = 100"
    by (simp add: calculate_health_score_def)
qed

text \<open>
  The score of the record of the claim's example (the table entry of pizza) is not 85.
\<close>

theorem calculate_health_score_pizza_not_85:
  "calculate_health_score
     \<lparr>calories = 266, protein = 11, carbs = 33, fat = 10, fiber = 2.3,
      vitamins = [''B12'', ''D''], confidence_threshold = 0.9\<rparr> \<noteq> 85"
  by (simp add: calculate_health_score_def)

lemma load_food_database_keys:
  "map fst load_food_database =
     [''apple'', ''banana'', ''chicken_breast'', ''salmon'', ''rice'', ''broccoli'', ''pizza'',
      ''salad'']"
  by (simp add: load_food_database_def)

lemma food_database_get_iff:
  "food_database_get k = Some r \<longleftrightarrow> (k, r) \<in> set load_food_database"
  unfolding food_database_get_def
  by (rule map_of_eq_Some_iff) (simp add: load_food_database_keys)

lemma food_database_get_None_iff:
  "food_database_get k = None \<longleftrightarrow> k \<notin> fst ` set load_food_database"
  unfolding food_database_get_def by (rule map_of_eq_None_iff)

text \<open>
  C7. The static table has eight entries, under eight different keys. For every food
  name and every lower-casing function: when the table holds a record under the
  lower-cased name, \<open>get_nutrition_info\<close> returns that record as the nutrition of its
  answer; when the lower-cased name is not a key of the table, the call fails with the
  error that reports the name as not found. So a name whose lower-cased form is
  \<open>apple\<close>, as for \<open>Apple\<close> and \<open>apple\<close>, resolves to the record of the key \<open>apple\<close>.
\<close>

theorem get_nutrition_info_lookup:
  "((str_lower name, r) \<in> set load_food_database \<longrightarrow>
      get_nutrition_info str_lower name =
        Inr \<lparr>food_name = name, nutrition = r, health_benefits = get_health_benefits name,
             preparation_tips = get_preparation_tips name\<rparr>)
   \<and> (str_lower name \<notin> fst ` set load_food_database \<longrightarrow>
      get_nutrition_info str_lower name =
        Inl (ValueError (''Food '' @ [CHR 39] @ name @ [CHR 39] @ '' not found in database'')))
   \<and> length load_food_database = 8 \<and> distinct (map fst load_food_database)
   \<and> (str_lower name = ''apple'' \<longrightarrow>
      get_nutrition_info str_lower name =
        Inr \<lparr>food_name = name,
             nutrition = \<lparr>calories = 52, protein = 0.3, carbs = 13.8, fat = 0.2, fiber = 2.4,
                          vitamins = [''C'', ''K''], confidence_threshold = 0.8\<rparr>,
             health_benefits = get_health_benefits name,
             preparation_tips = get_preparation_tips name\<rparr>)"
proof (intro conjI impI)
  assume "(str_lower name, r) \<in> set load_food_database"
  then have "food_database_get (str_lower name) = Some r"
    by (simp only: food_database_get_iff)
  then show "get_nutrition_info str_lower name =
        Inr \<lparr>food_name = name, nutrition = r, health_benefits = get_health_benefits name,
             preparation_tips = get_preparation_tips name\<rparr>"
    by (simp add: get_nutrition_info_def)
next
  assume "str_lower name \<notin> fst ` set load_food_database"
  then have "food_database_get (str_lower name) = None"
    by (rule iffD2[OF food_database_get_None_iff])
  then show "get_nutrition_info str_lower name =
        Inl (ValueError (''Food '' @ [CHR 39] @ name @ [CHR 39] @ '' not found in database''))"
    by (simp add: get_nutrition_info_def)
next
  show "length load_food_database = 8"
    by (simp add: load_food_database_def)
  show "distinct (map fst load_food_database)"
    by (simp add: load_food_database_keys)
next
  assume "str_lower name = ''apple''"
  moreover have "(''apple'',
      \<lparr>calories = 52, protein = 0.3, carbs = 13.8, fat = 0.2, fiber = 2.4,
       vitamins = [''C'', ''K''], confidence_threshold = 0.8 :: real\<rparr>) \<in> set load_food_database"
    by (simp add: load_food_database_def)
  ultimately have "food_database_get (str_lower name) =
      Some \<lparr>calories = 52, protein = 0.3, carbs = 13.8, fat = 0.2, fiber = 2.4,
            vitamins = [''C'', ''K''], confidence_threshold = 0.8\<rparr>"
    by (simp only: food_database_get_iff)
  then show "get_nutrition_info str_lower name =
        Inr \<lparr>food_name = name,
             nutrition = \<lparr>calories = 52, protein = 0.3, carbs = 13.8, fat = 0.2, fiber = 2.4,
                          vitamins = [''C'', ''K''], confidence_threshold = 0.8\<rparr>,
             health_benefits = get_health_benefits name,
             preparation_tips = get_preparation_tips name\<rparr>"
    by (simp add: get_nutrition_info_def)
qed

lemma ascii_lower_examples:
  "ascii_lower ''Apple'' = ''apple''" "ascii_lower ''apple'' = ''apple''"
  "ascii_lower ''PIZZA'' = ''pizza''" "ascii_lower ''Pear'' = ''pear''"
  by (simp_all add: ascii_lower_def ascii_lower_char_def)

theorem get_nutrition_info_lookup_witness:
  "nutrition (projr (get_nutrition_info ascii_lower ''Apple'')) =
     \<lparr>calories = 52, protein = 0.3, carbs = 13.8, fat = 0.2, fiber = 2.4,
      vitamins = [''C'', ''K''], confidence_threshold = 0.8\<rparr>
   \<and> nutrition (projr (get_nutrition_info ascii_lower ''apple'')) =
     \<lparr>calories = 52, protein = 0.3, carbs = 13.8, fat = 0.2, fiber = 2.4,
      vitamins = [''C'', ''K''], confidence_threshold = 0.8\<rparr>
   \<and> nutrition (projr (get_nutrition_info ascii_lower ''PIZZA'')) =
     \<lparr>calories = 266, protein = 11, carbs = 33, fat = 10, fiber = 2.3,
      vitamins = [''B12'', ''D''], confidence_threshold = 0.9\<rparr>
   \<and> get_nutrition_info ascii_lower ''Pear'' =
     Inl (ValueError (''Food '' @ [CHR 39] @ ''Pear'' @ [CHR 39] @ '' not found in database''))"
proof -
  let ?pizza = "\<lparr>calories = 266, protein = 11, carbs = 33, fat = 10, fiber = 2.3,
                 vitamins = [''B12'', ''D''], confidence_threshold = 0.9 :: real\<rparr>"
  have up: "ascii_lower ''Apple'' = ''apple''" and lo: "ascii_lower ''apple'' = ''apple''"
    by (rule ascii_lower_examples)+
  have pz: "(ascii_lower ''PIZZA'', ?pizza) \<in> set load_food_database"
    unfolding ascii_lower_examples by (simp add: load_food_database_def)
  have pe: "ascii_lower ''Pear'' \<notin> fst ` set load_food_database"
    unfolding ascii_lower_examples by (simp add: load_food_database_def)
  from get_nutrition_info_lookup[of ascii_lower "''Apple''" undefined] up
  have a: "nutrition (projr (get_nutrition_info ascii_lower ''Apple'')) =
     \<lparr>calories = 52, protein = 0.3, carbs = 13.8, fat = 0.2, fiber = 2.4,
      vitamins = [''C'', ''K''], confidence_threshold = 0.8\<rparr>"
    by simp
  from get_nutrition_info_lookup[of ascii_lower "''apple''" undefined] lo
  have b: "nutrition (projr (get_nutrition_info ascii_lower ''apple'')) =
     \<lparr>calories = 52, protein = 0.3, carbs = 13.8, fat = 0.2, fiber = 2.4,
      vitamins = [''C'', ''K''], confidence_threshold = 0.8\<rparr>"
    by simp
  from get_nutrition_info_lookup[of ascii_lower "''PIZZA''" ?pizza] pz
  have c: "nutrition (projr (get_nutrition_info ascii_lower ''PIZZA'')) = ?pizza"
    by simp
  from get_nutrition_info_lookup[of ascii_lower "''Pear''" undefined] pe
  have d: "get_nutrition_info ascii_lower ''Pear'' =
     Inl (ValueError (''Food '' @ [CHR 39] @ ''Pear'' @ [CHR 39] @ '' not found in database''))"
    by simp
  from a b c d show ?thesis by (intro conjI)
qed

section \<open>Properties of the floating-point numbers\<close>

lemma pow2_powr: "pow2 e = 2 powr (of_int e)"
  by (simp add: pow2_def powr_real_of_int inverse_eq_divide)

lemma pow2_pos: "0 < pow2 e"
  by (simp add: pow2_powr)

text \<open>
  The rounding of a number whose binary exponent is known, in the normal range and
  in the subnormal range.
\<close>

lemma expo_eq:
  assumes "pow2 e \<le> \<bar>x\<bar>" "\<bar>x\<bar> < pow2 (e + 1)" "- 1022 \<le> e"
  shows "expo x = e"
proof -
  have "0 < \<bar>x\<bar>" using assms(1) pow2_pos[of e] by linarith
  then have "\<lfloor>log 2 \<bar>x\<bar>\<rfloor> = e"
    using assms(1,2) by (simp add: floor_log_eq_powr_iff pow2_powr)
  then show ?thesis using assms(3) by (simp add: expo_def)
qed

lemma fl_eval:
  assumes "pow2 e \<le> \<bar>x\<bar>" "\<bar>x\<bar> < pow2 (e + 1)" "- 1022 \<le> e"
  shows "fl x = of_int (round_half_even (x / pow2 (e - 52))) * pow2 (e - 52)"
proof -
  have "x \<noteq> 0" using assms(1) pow2_pos[of e] by auto
  then show ?thesis by (simp add: fl_def expo_eq[OF assms])
qed

lemma fl_eval_subnormal:
  assumes "x \<noteq> 0" "\<bar>x\<bar> < pow2 (- 1022)"
  shows "fl x = of_int (round_half_even (x / pow2 (- 1074))) * pow2 (- 1074)"
proof -
  have "0 < \<bar>x\<bar>" using assms(1) by simp
  then have "log 2 \<bar>x\<bar> < of_int (- 1022)"
    using assms(2) by (simp add: pow2_powr less_powr_iff)
  then have "\<lfloor>log 2 \<bar>x\<bar>\<rfloor> < - 1022" by (simp add: floor_less_iff)
  then have "expo x = - 1022" by (simp add: expo_def)
  then show ?thesis using assms(1) by (simp add: fl_def)
qed

lemma pow2_1024_big: "(10 :: real) ^ 9 < pow2 1024"
  by (simp add: pow2_def)

lemma round_double_eval:
  assumes "fl x = v" "\<bar>v\<bar> < 10 ^ 9"
  shows "round_double x = Finite v"
proof -
  from assms(2) pow2_1024_big have "\<not> v \<ge> pow2 1024" "\<not> v \<le> - pow2 1024"
    by linarith+
  then show ?thesis using assms(1) by (simp add: round_double_def Let_def)
qed


text \<open>
  Rounding keeps a value between 0 and an integer below \<open>2 ^ 53\<close> between these
  bounds.
\<close>

lemma round_half_even_le:
  assumes "x \<le> of_int N"
  shows "round_half_even x \<le> N"
proof -
  have f: "\<lfloor>x\<rfloor> \<le> N" using assms by (simp add: floor_le_iff)
  show ?thesis
  proof (cases "x - of_int \<lfloor>x\<rfloor> < 1 / 2")
    case True
    then show ?thesis using f by (simp add: round_half_even_def)
  next
    case False
    then have "of_int \<lfloor>x\<rfloor> < x" by linarith
    with assms have "(of_int \<lfloor>x\<rfloor> :: real) < of_int N" by linarith
    then have "\<lfloor>x\<rfloor> < N" by simp
    then show ?thesis using f by (simp add: round_half_even_def Let_def)
  qed
qed

lemma round_half_even_nonneg:
  assumes "0 \<le> x"
  shows "0 \<le> round_half_even x"
proof -
  have "0 \<le> \<lfloor>x\<rfloor>" using assms by simp
  then show ?thesis by (simp add: round_half_even_def Let_def)
qed

lemma fl_nonneg:
  assumes "0 \<le> x"
  shows "0 \<le> fl x"
proof (cases "x = 0")
  case True
  then show ?thesis by (simp add: fl_def)
next
  case False
  have "0 \<le> x / pow2 (expo x - 52)" using assms pow2_pos[of "expo x - 52"] by simp
  from round_half_even_nonneg[OF this] pow2_pos[of "expo x - 52"] False
  show ?thesis by (simp add: fl_def)
qed

lemma fl_le_int:
  assumes "0 \<le> x" "x \<le> of_int B" "B < 2 ^ 53"
  shows "fl x \<le> of_int B"
proof (cases "x = 0")
  case True
  then show ?thesis using assms by (simp add: fl_def)
next
  case False
  then have xp: "0 < x" using assms(1) by simp
  have "x < 2 ^ 53"
  proof -
    have "(of_int B :: real) < of_int (2 ^ 53)" using assms(3) by (simp only: of_int_less_iff)
    then show ?thesis using assms(2) by simp
  qed
  then have p: "x < 2 powr 53" by simp
  have "log 2 x < 53"
    by (rule less_powr_iff[THEN iffD1, OF _ xp p]) simp
  then have "\<lfloor>log 2 \<bar>x\<bar>\<rfloor> < 53" using xp by (simp add: floor_less_iff)
  then have e: "expo x \<le> 52" by (simp add: expo_def)
  define k where "k = nat (52 - expo x)"
  have u: "pow2 (expo x - 52) = 1 / 2 ^ k"
    using e by (auto simp add: pow2_def k_def)
  have "x / pow2 (expo x - 52) = x * 2 ^ k" by (simp add: u)
  also have "\<dots> \<le> of_int B * 2 ^ k" using assms(2) by simp
  also have "\<dots> = of_int (B * 2 ^ k)" by simp
  finally have "round_half_even (x / pow2 (expo x - 52)) \<le> B * 2 ^ k"
    by (rule round_half_even_le)
  then have "(of_int (round_half_even (x / pow2 (expo x - 52))) :: real) \<le> of_int (B * 2 ^ k)"
    by (simp only: of_int_le_iff)
  then have "of_int (round_half_even (x / pow2 (expo x - 52))) * (1 / 2 ^ k) \<le>
             (of_int (B * 2 ^ k) :: real) * (1 / 2 ^ k)"
    by (rule mult_right_mono) simp
  then show ?thesis using False by (simp add: fl_def u)
qed

lemma pow2_1024_gt_53: "(2 :: real) ^ 53 < pow2 1024"
  by (simp add: pow2_def)

lemma round_double_bounded:
  assumes "0 \<le> x" "x \<le> of_int B" "B < 2 ^ 53"
  shows "round_double x = Finite (fl x)" and "0 \<le> fl x" and "fl x \<le> of_int B"
proof -
  show lo: "0 \<le> fl x" by (rule fl_nonneg[OF assms(1)])
  show hi: "fl x \<le> of_int B" by (rule fl_le_int[OF assms])
  have "(of_int B :: real) < of_int (2 ^ 53)" using assms(3) by (simp only: of_int_less_iff)
  then have "fl x < pow2 1024" using hi pow2_1024_gt_53 by simp
  moreover have "- pow2 1024 < fl x" using lo pow2_pos[of 1024] by linarith
  ultimately show "round_double x = Finite (fl x)"
    by (simp add: round_double_def Let_def)
qed

text \<open>The left-to-right sum is in range.\<close>

lemma foldl_fadd_in_range:
  "list_all in_unit vs \<Longrightarrow> 0 \<le> a \<Longrightarrow> a \<le> real k \<Longrightarrow> k + length vs < 2 ^ 53 \<Longrightarrow>
   \<exists>s. foldl fadd (Finite a) vs = Finite s \<and> 0 \<le> s \<and> s \<le> real (k + length vs)"
proof (induction vs arbitrary: a k)
  case Nil
  then show ?case by simp
next
  case (Cons v vs)
  from Cons.prems(1) obtain r where v: "v = Finite r" and r: "0 \<le> r" "r \<le> 1"
    by (cases v) auto
  have lo: "0 \<le> a + r" using Cons.prems(2) r(1) by simp
  have hi: "a + r \<le> of_int (int (Suc k))" using Cons.prems(3) r(2) by simp
  have b: "int (Suc k) < 2 ^ 53"
  proof -
    have "Suc k < 2 ^ 53" using Cons.prems(4) by simp
    then have "int (Suc k) < int (2 ^ 53)" by (simp only: of_nat_less_iff)
    then show ?thesis by simp
  qed
  note rd = round_double_bounded[OF lo hi b]
  have step: "fadd (Finite a) v = Finite (fl (a + r))" by (simp add: v rd(1))
  have "\<exists>s. foldl fadd (Finite (fl (a + r))) vs = Finite s \<and> 0 \<le> s
            \<and> s \<le> real (Suc k + length vs)"
  proof (rule Cons.IH)
    show "list_all in_unit vs" using Cons.prems(1) by simp
    show "0 \<le> fl (a + r)" by (rule rd(2))
    show "fl (a + r) \<le> real (Suc k)" using rd(3) by simp
    show "Suc k + length vs < 2 ^ 53" using Cons.prems(4) by simp
  qed
  then show ?case by (simp add: step)
qed

lemma naive_sum_in_range: "sum_in_range naive_sum"
  unfolding sum_in_range_def naive_sum_def
proof (intro allI impI)
  fix vs :: "pyfloat list"
  assume l: "length vs < 2 ^ 53" and u: "list_all in_unit vs"
  from foldl_fadd_in_range[OF u, of 0 0] l
  show "\<exists>s. foldl fadd (Finite 0) vs = Finite s \<and> 0 \<le> s \<and> s \<le> real (length vs)"
    by simp
qed

text \<open>The decimal literals of the risk score as binary64 numbers.\<close>

lemma lit_0_1: "lit 0.1 = Finite (3602879701896397 / 2 ^ 55)"
proof -
  have "fl 0.1 = 3602879701896397 / 2 ^ 55"
    by (subst fl_eval[of "-4"]) (simp_all add: pow2_def round_half_even_def)
  then show ?thesis unfolding lit_def by (rule round_double_eval) simp
qed

lemma lit_0_05: "lit 0.05 = Finite (3602879701896397 / 2 ^ 56)"
proof -
  have "fl 0.05 = 3602879701896397 / 2 ^ 56"
    by (subst fl_eval[of "-5"]) (simp_all add: pow2_def round_half_even_def)
  then show ?thesis unfolding lit_def by (rule round_double_eval) simp
qed




lemma lit_0_06: "lit 0.06 = Finite (1080863910568919 / 2 ^ 54)"
proof -
  have "fl 0.06 = 1080863910568919 / 2 ^ 54"
    by (subst fl_eval[of "-5"]) (simp_all add: pow2_def round_half_even_def)
  then show ?thesis unfolding lit_def by (rule round_double_eval) simp
qed


lemma lit_0_8: "lit 0.8 = Finite (3602879701896397 / 2 ^ 52)"
proof -
  have "fl 0.8 = 3602879701896397 / 2 ^ 52"
    by (subst fl_eval[of "-1"]) (simp_all add: pow2_def round_half_even_def)
  then show ?thesis unfolding lit_def by (rule round_double_eval) simp
qed

section \<open>Properties of the risk forecasting service\<close>

text \<open>
  The fallback score is the score of the specification on the value of the BMI
  expression, and raises what that expression raises.
\<close>

lemma mock_risk_calculation_eq:
  "mock_risk_calculation risk_type hm ld =
     (case body_mass_index hm of
        Inl e \<Rightarrow> Inl e
      | Inr bmi \<Rightarrow>
          Inr (spec_risk_score (dict_get (age ld) 40)
                 (dict_get (blood_pressure_systolic hm) 120) bmi
                 (dict_get (physical_activity_level ld) ''moderate'')))"
proof -
  have s1: "(if c then fadd x (lit 0.1) else if d then fadd x (lit 0.05) else x) =
            increment x (if c then Some 0.1 else if d then Some 0.05 else None)" for c d x
    by (simp add: increment_def)
  have s2: "(if c then fadd x (lit 0.15) else if d then fadd x (lit 0.08) else x) =
            increment x (if c then Some 0.15 else if d then Some 0.08 else None)" for c d x
    by (simp add: increment_def)
  have s3: "(if c then fadd x (lit 0.12) else if d then fadd x (lit 0.06) else x) =
            increment x (if c then Some 0.12 else if d then Some 0.06 else None)" for c d x
    by (simp add: increment_def)
  have s4: "(if c then fadd x (lit 0.08) else if d then fsub x (lit 0.05) else x) =
            increment x (if c then Some 0.08 else if d then Some (- 0.05) else None)" for c d x
    by (simp add: increment_def)
  have m: "\<And>a. (a \<in> set [''very_active'', ''active'']) = (a = ''active'' \<or> a = ''very_active'')"
    by auto
  show ?thesis
    unfolding mock_risk_calculation_def spec_risk_score_def Let_def m s1 s2 s3 s4 ..
qed

















text \<open>
  Rounding decides a branch: for weight 72.25 and height 170 the exact BMI is 25, the
  computed one is 25.000000000000004, and the increment 0.06 for a BMI above 25 is
  added to 0.10, giving 0.16.
\<close>

lemma rounding_height: "truediv (Finite (170)) (Finite (100)) = Inr (Finite (7656119366529843 / 2 ^ 52))"
proof -
  have "fl (170 / (100)) = 7656119366529843 / 2 ^ 52"
    by (subst fl_eval[of "0"]) (simp_all add: pow2_def round_half_even_def)
  then have "round_double (170 / (100)) = Finite (7656119366529843 / 2 ^ 52)"
    by (rule round_double_eval) simp
  then show ?thesis by simp
qed

lemma rounding_square: "fpow2 (Finite (7656119366529843 / 2 ^ 52)) = Inr (Finite (3253850730775183 / 2 ^ 50))"
proof -
  have "fl (7656119366529843 / 2 ^ 52 * (7656119366529843 / 2 ^ 52)) = 3253850730775183 / 2 ^ 50"
    by (subst fl_eval[of "1"]) (simp_all add: pow2_def round_half_even_def)
  then show ?thesis using pow2_1024_big by simp
qed

lemma rounding_bmi: "truediv (Finite (289 / 2 ^ 2)) (Finite (3253850730775183 / 2 ^ 50)) = Inr (Finite (7036874417766401 / 2 ^ 48))"
proof -
  have "fl (289 / 2 ^ 2 / (3253850730775183 / 2 ^ 50)) = 7036874417766401 / 2 ^ 48"
    by (subst fl_eval[of "4"]) (simp_all add: pow2_def round_half_even_def)
  then have "round_double (289 / 2 ^ 2 / (3253850730775183 / 2 ^ 50)) = Finite (7036874417766401 / 2 ^ 48)"
    by (rule round_double_eval) simp
  then show ?thesis by simp
qed

lemma rounding_sum: "fadd (Finite (3602879701896397 / 2 ^ 55)) (Finite (1080863910568919 / 2 ^ 54)) = Finite (5764607523034235 / 2 ^ 55)"
proof -
  have "fl (3602879701896397 / 2 ^ 55 + 1080863910568919 / 2 ^ 54) = 5764607523034235 / 2 ^ 55"
    by (subst fl_eval[of "-3"]) (simp_all add: pow2_def round_half_even_def)
  then show ?thesis unfolding fadd.simps by (rule round_double_eval) simp
qed

lemma rounding_example:
  "mock_risk_calculation ''diabetes''
     \<lparr>weight = Some (Finite 72.25), height = Some (Finite 170), blood_pressure_systolic = Some 120\<rparr>
     \<lparr>age = Some 40, physical_activity_level = Some ''moderate''\<rparr>
   = Inr (Finite (5764607523034235 / 2 ^ 55))"
proof -
  have q: "(72.25 :: real) = 289 / 2 ^ 2" by simp
  have b: "body_mass_index \<lparr>weight = Some (Finite 72.25), height = Some (Finite 170),
                     blood_pressure_systolic = Some 120\<rparr> = Inr (Finite (7036874417766401 / 2 ^ 48))"
    unfolding body_mass_index_def Let_def dict_get_def health_metrics.simps option.case
      rounding_height sum.case rounding_square q rounding_bmi ..
  have "spec_risk_score 40 120 (Finite (7036874417766401 / 2 ^ 48)) ''moderate'' =
          py_max (Finite 0) (py_min (Finite 1) (fadd (lit 0.1) (lit 0.06)))"
    by (simp add: spec_risk_score_def increment_def fgt_def)
  also have "\<dots> = Finite (5764607523034235 / 2 ^ 55)"
    unfolding lit_0_1 lit_0_06 rounding_sum by (simp add: py_max_def py_min_def fgt_def)
  finally have sc: "spec_risk_score 40 120 (Finite (7036874417766401 / 2 ^ 48)) ''moderate'' =
                      Finite (5764607523034235 / 2 ^ 55)" .
  show ?thesis
    unfolding mock_risk_calculation_eq b sum.case dict_get_def lifestyle_data.simps health_metrics.simps
      option.case sc ..
qed

text \<open>
  A height that is not zero can raise as well: for the height 1e-170 the square
  underflows to zero and the division raises \<open>ZeroDivisionError\<close>; for the height
  1e200 the square overflows and raises \<open>OverflowError\<close>.
\<close>

lemma tiny_height: "truediv (Finite (5438853046443695 / 2 ^ 617)) (Finite (100)) = Inr (Finite (3480865949723965 / 2 ^ 623))"
proof -
  have "fl (5438853046443695 / 2 ^ 617 / (100)) = 3480865949723965 / 2 ^ 623"
    by (subst fl_eval[of "-572"]) (simp_all add: pow2_def round_half_even_def)
  then have "round_double (5438853046443695 / 2 ^ 617 / (100)) = Finite (3480865949723965 / 2 ^ 623)"
    by (rule round_double_eval) simp
  then show ?thesis by simp
qed

lemma tiny_square: "fpow2 (Finite (3480865949723965 / 2 ^ 623)) = Inr (Finite 0)"
proof -
  have "fl (3480865949723965 / 2 ^ 623 * (3480865949723965 / 2 ^ 623)) = 0"
    by (subst fl_eval_subnormal) (simp_all add: pow2_def round_half_even_def)
  then show ?thesis using pow2_pos[of 1024] by simp
qed

lemma tiny_height_raises:
  "mock_risk_calculation risk_type
     \<lparr>weight = Some (Finite 70), height = Some (Finite (5438853046443695 / 2 ^ 617)),
      blood_pressure_systolic = Some 120\<rparr> ld
   = Inl (ZeroDivisionError ''float division by zero'')"
proof -
  have "body_mass_index
          \<lparr>weight = Some (Finite 70), height = Some (Finite (5438853046443695 / 2 ^ 617)),
           blood_pressure_systolic = Some 120\<rparr>
        = Inl (ZeroDivisionError ''float division by zero'')"
    unfolding body_mass_index_def Let_def dict_get_def health_metrics.simps option.case
      tiny_height sum.case tiny_square
    by simp
  then show ?thesis by (simp add: mock_risk_calculation_eq)
qed

lemma huge_height: "truediv (Finite (99999999999999996973312221251036165947450327545502362648241750950346848435554075534196338404706251868027512415973882408182135734368278484639385041047239877871023591066789981811181813306167128854888448)) (Finite (100)) = Inr (Finite (1000000000000000017535541566019400541537441865177200086145798104936341572305513193378283771523764365204900328030374534281861011105867876227585990799216050325567033999660761493056632508247061001404416))"
proof -
  have "fl (99999999999999996973312221251036165947450327545502362648241750950346848435554075534196338404706251868027512415973882408182135734368278484639385041047239877871023591066789981811181813306167128854888448 / (100)) = 1000000000000000017535541566019400541537441865177200086145798104936341572305513193378283771523764365204900328030374534281861011105867876227585990799216050325567033999660761493056632508247061001404416"
    by (subst fl_eval[of "657"]) (simp_all add: pow2_def round_half_even_def)
  then have "round_double (99999999999999996973312221251036165947450327545502362648241750950346848435554075534196338404706251868027512415973882408182135734368278484639385041047239877871023591066789981811181813306167128854888448 / (100)) = Finite (1000000000000000017535541566019400541537441865177200086145798104936341572305513193378283771523764365204900328030374534281861011105867876227585990799216050325567033999660761493056632508247061001404416)"
    unfolding round_double_def Let_def by (simp add: pow2_def)
  then show ?thesis by simp
qed

lemma huge_square:
  "fpow2 (Finite (1000000000000000017535541566019400541537441865177200086145798104936341572305513193378283771523764365204900328030374534281861011105867876227585990799216050325567033999660761493056632508247061001404416)) =
     Inl (OverflowError (''(34, '' @ [CHR 39] @ ''Numerical result out of range'' @ [CHR 39] @ '')''))"
proof -
  have "fl (1000000000000000017535541566019400541537441865177200086145798104936341572305513193378283771523764365204900328030374534281861011105867876227585990799216050325567033999660761493056632508247061001404416 * (1000000000000000017535541566019400541537441865177200086145798104936341572305513193378283771523764365204900328030374534281861011105867876227585990799216050325567033999660761493056632508247061001404416)) = 999999999999999962548451771690684809076493285594286626085462615451650223699469634530787258815383100700517079818566301066875576949199347223083144088389044174728825049006032436451622606264060050845606798799344098426541208718277840641955336625328493369436498690038722907937282555908181996724525633202071747441130863081661241684692006334633236465661234694895347875047846842872976218539126550354198528"
    by (subst fl_eval[of "1315"]) (simp_all add: pow2_def round_half_even_def)
  then show ?thesis by (simp add: pow2_def)
qed

lemma huge_height_raises:
  "mock_risk_calculation risk_type
     \<lparr>weight = Some (Finite 70), height = Some (Finite 99999999999999996973312221251036165947450327545502362648241750950346848435554075534196338404706251868027512415973882408182135734368278484639385041047239877871023591066789981811181813306167128854888448),
      blood_pressure_systolic = Some 120\<rparr> ld
   = Inl (OverflowError (''(34, '' @ [CHR 39] @ ''Numerical result out of range'' @ [CHR 39] @ '')''))"
proof -
  have "body_mass_index
          \<lparr>weight = Some (Finite 70), height = Some (Finite 99999999999999996973312221251036165947450327545502362648241750950346848435554075534196338404706251868027512415973882408182135734368278484639385041047239877871023591066789981811181813306167128854888448),
           blood_pressure_systolic = Some 120\<rparr>
        = Inl (OverflowError (''(34, '' @ [CHR 39] @ ''Numerical result out of range'' @ [CHR 39] @ '')''))"
    unfolding body_mass_index_def Let_def dict_get_def health_metrics.simps option.case
      huge_height sum.case huge_square ..
  then show ?thesis by (simp add: mock_risk_calculation_eq)
qed

text \<open>
  C3, as amended. For every non-empty mapping from risk categories to probabilities
  between 0 and 1, the aggregate health score is the integer part of the
  floating-point value of \<open>(1 - mean) * 100\<close>: the mean is the sum divided by the
  number of risks, and each of the three operations rounds. The value is truncated,
  not rounded to the nearest integer, and the score lies between 0 and 100.
\<close>

theorem calculate_overall_health_score_truncates:
  assumes sm: "sum_in_range py_sum" and ne: "rs \<noteq> []" and len: "length rs < 2 ^ 53"
    and rng: "list_all in_unit (map snd rs)"
  shows "\<exists>s. py_sum (map snd rs) = Finite s
           \<and> calculate_overall_health_score py_sum rs =
               Inr \<lfloor>fl (fl (1 - fl (s / real (length rs))) * 100)\<rfloor>
           \<and> 0 \<le> \<lfloor>fl (fl (1 - fl (s / real (length rs))) * 100)\<rfloor>
           \<and> \<lfloor>fl (fl (1 - fl (s / real (length rs))) * 100)\<rfloor> \<le> 100"
proof -
  define n where "n = real (length rs)"
  have npos: "0 < n" using ne by (simp add: n_def)
  from sm len rng obtain s where s: "py_sum (map snd rs) = Finite s" "0 \<le> s" "s \<le> n"
    unfolding sum_in_range_def n_def by (metis length_map)
  have q0: "0 \<le> s / n" using s(2) npos by simp
  have q1: "s / n \<le> of_int 1" using s(3) npos by simp
  note a = round_double_bounded[OF q0 q1]
  define av where "av = fl (s / n)"
  have av: "round_double (s / n) = Finite av" "0 \<le> av" "av \<le> 1"
    using a by (simp_all add: av_def)
  have d0: "0 \<le> 1 + - av" using av(3) by simp
  have d1: "1 + - av \<le> of_int 1" using av(2) by simp
  note d = round_double_bounded[OF d0 d1]
  define dv where "dv = fl (1 - av)"
  have dv: "round_double (1 - av) = Finite dv" "0 \<le> dv" "dv \<le> 1"
    using d by (simp_all add: dv_def)
  have p0: "0 \<le> dv * 100" using dv(2) by simp
  have p1: "dv * 100 \<le> of_int 100" using dv(3) by simp
  note p = round_double_bounded[OF p0 p1]
  define pv where "pv = fl (dv * 100)"
  have pv: "round_double (dv * 100) = Finite pv" "0 \<le> pv" "pv \<le> 100"
    using p by (simp_all add: pv_def)
  have f0: "0 \<le> \<lfloor>pv\<rfloor>" using pv(2) by simp
  have f1: "\<lfloor>pv\<rfloor> \<le> 100" using pv(3) by (simp add: floor_le_iff)
  have nz: "n \<noteq> 0" using npos by simp
  have len0: "length rs \<noteq> 0" using ne by simp
  have "calculate_overall_health_score py_sum rs = Inr (max 0 (min 100 \<lfloor>pv\<rfloor>))"
    unfolding calculate_overall_health_score_def
    using len0 nz pv(2)
    by (simp add: s(1) n_def[symmetric] av(1) fsub_def dv(1) pv(1))
  also have "max 0 (min 100 \<lfloor>pv\<rfloor>) = \<lfloor>pv\<rfloor>" using f0 f1 by simp
  finally have "calculate_overall_health_score py_sum rs = Inr \<lfloor>pv\<rfloor>" .
  then show ?thesis
    using s(1) f0 f1 unfolding pv_def dv_def av_def n_def by simp
qed

lemma quarter_eighth_sum_1: "fadd (Finite (0)) (Finite (1 / 2 ^ 2)) = Finite (1 / 2 ^ 2)"
proof -
  have "fl (0 + 1 / 2 ^ 2) = 1 / 2 ^ 2"
    by (subst fl_eval[of "-2"]) (simp_all add: pow2_def round_half_even_def)
  then show ?thesis unfolding fadd.simps by (rule round_double_eval) simp
qed

lemma quarter_eighth_sum_2: "fadd (Finite (1 / 2 ^ 2)) (Finite (1 / 2 ^ 3)) = Finite (3 / 2 ^ 3)"
proof -
  have "fl (1 / 2 ^ 2 + 1 / 2 ^ 3) = 3 / 2 ^ 3"
    by (subst fl_eval[of "-2"]) (simp_all add: pow2_def round_half_even_def)
  then show ?thesis unfolding fadd.simps by (rule round_double_eval) simp
qed

lemma quarter_eighth_mean: "truediv (Finite (3 / 2 ^ 3)) (Finite (2)) = Inr (Finite (3 / 2 ^ 4))"
proof -
  have "fl (3 / 2 ^ 3 / (2)) = 3 / 2 ^ 4"
    by (subst fl_eval[of "-3"]) (simp_all add: pow2_def round_half_even_def)
  then have "round_double (3 / 2 ^ 3 / (2)) = Finite (3 / 2 ^ 4)"
    by (rule round_double_eval) simp
  then show ?thesis by simp
qed

lemma quarter_eighth_complement: "fsub (Finite (1)) (Finite (3 / 2 ^ 4)) = Finite (13 / 2 ^ 4)"
proof -
  have "fl (1 + - (3 / 2 ^ 4)) = 13 / 2 ^ 4"
    by (subst fl_eval[of "-1"]) (simp_all add: pow2_def round_half_even_def)
  then show ?thesis unfolding fsub_def fneg.simps fadd.simps by (rule round_double_eval) simp
qed

lemma quarter_eighth_product: "fmul (Finite (13 / 2 ^ 4)) (Finite (100)) = Finite (325 / 2 ^ 2)"
proof -
  have "fl (13 / 2 ^ 4 * 100) = 325 / 2 ^ 2"
    by (subst fl_eval[of "6"]) (simp_all add: pow2_def round_half_even_def)
  then show ?thesis unfolding fmul.simps by (rule round_double_eval) simp
qed

theorem calculate_overall_health_score_truncates_witness:
  "calculate_overall_health_score naive_sum
     [(''diabetes'', Finite 0.25), (''stroke'', Finite 0.125)] = Inr 81"
proof -
  let ?rs = "[(''diabetes'', Finite 0.25), (''stroke'', Finite 0.125)]"
  have ne: "?rs \<noteq> []" by simp
  have len: "length ?rs < 2 ^ 53" by simp
  have rng: "list_all in_unit (map snd ?rs)" by simp
  from calculate_overall_health_score_truncates[OF naive_sum_in_range ne len rng] obtain s where
    s: "naive_sum (map snd ?rs) = Finite s"
    and r: "calculate_overall_health_score naive_sum ?rs =
              Inr \<lfloor>fl (fl (1 - fl (s / real (length ?rs))) * 100)\<rfloor>"
    by blast
  have v: "(0.25 :: real) = 1 / 2 ^ 2" "(0.125 :: real) = 1 / 2 ^ 3" by simp_all
  have "naive_sum (map snd ?rs) = Finite (3 / 2 ^ 3)"
    unfolding naive_sum_def list.map snd_conv foldl.simps v quarter_eighth_sum_1
      quarter_eighth_sum_2 ..
  with s have sv: "s = 3 / 2 ^ 3" by simp
  have m: "fl (3 / 16) = 3 / 16"
    using quarter_eighth_mean by (simp add: round_double_def Let_def split: if_splits)
  have c: "fl (13 / 16) = 13 / 16"
    using quarter_eighth_complement
    by (simp add: fsub_def round_double_def Let_def split: if_splits)
  have p: "fl (325 / 4) = 325 / 4"
    using quarter_eighth_product by (simp add: round_double_def Let_def split: if_splits)
  have "\<lfloor>fl (fl (1 - fl (s / real (length ?rs))) * 100)\<rfloor> = 81"
    unfolding sv by (simp add: m c p)
  with r show ?thesis by simp
qed

lemma score_of_single:
  "calculate_overall_health_score naive_sum [(k, v)] =
     (case truediv (fadd (Finite 0) v) (Finite 1) of
        Inl e \<Rightarrow> Inl e
      | Inr avg_risk \<Rightarrow>
          (case py_int (fmul (fsub (Finite 1) avg_risk) (Finite 100)) of
             Inl e \<Rightarrow> Inl e
           | Inr health_score \<Rightarrow> Inr (max 0 (min 100 health_score))))"
  by (simp add: calculate_overall_health_score_def naive_sum_def)

lemma sixteenth_sum_1: "fadd (Finite (0)) (Finite (1 / 2 ^ 4)) = Finite (1 / 2 ^ 4)"
proof -
  have "fl (0 + 1 / 2 ^ 4) = 1 / 2 ^ 4"
    by (subst fl_eval[of "-4"]) (simp_all add: pow2_def round_half_even_def)
  then show ?thesis unfolding fadd.simps by (rule round_double_eval) simp
qed

lemma sixteenth_mean: "truediv (Finite (1 / 2 ^ 4)) (Finite (1)) = Inr (Finite (1 / 2 ^ 4))"
proof -
  have "fl (1 / 2 ^ 4 / (1)) = 1 / 2 ^ 4"
    by (subst fl_eval[of "-4"]) (simp_all add: pow2_def round_half_even_def)
  then have "round_double (1 / 2 ^ 4 / (1)) = Finite (1 / 2 ^ 4)"
    by (rule round_double_eval) simp
  then show ?thesis by simp
qed

lemma sixteenth_complement: "fsub (Finite (1)) (Finite (1 / 2 ^ 4)) = Finite (15 / 2 ^ 4)"
proof -
  have "fl (1 + - (1 / 2 ^ 4)) = 15 / 2 ^ 4"
    by (subst fl_eval[of "-1"]) (simp_all add: pow2_def round_half_even_def)
  then show ?thesis unfolding fsub_def fneg.simps fadd.simps by (rule round_double_eval) simp
qed

lemma sixteenth_product: "fmul (Finite (15 / 2 ^ 4)) (Finite (100)) = Finite (375 / 2 ^ 2)"
proof -
  have "fl (15 / 2 ^ 4 * 100) = 375 / 2 ^ 2"
    by (subst fl_eval[of "6"]) (simp_all add: pow2_def round_half_even_def)
  then show ?thesis unfolding fmul.simps by (rule round_double_eval) simp
qed

lemma score_sixteenth:
  "calculate_overall_health_score naive_sum [(''diabetes'', Finite 0.0625)] = Inr 93"
proof -
  have v: "(0.0625 :: real) = 1 / 2 ^ 4" by simp
  show ?thesis
    unfolding score_of_single v sixteenth_sum_1 sixteenth_mean sum.case sixteenth_complement
      sixteenth_product
    by simp
qed

text \<open>
  For a single risk of 0.0625 the value \<open>(1 - mean) * 100\<close> is 93.75, with no
  rounding in any step: the code returns 93, the rounded value is 94.
\<close>

theorem calculate_overall_health_score_not_round:
  "calculate_overall_health_score naive_sum [(''diabetes'', Finite 0.0625)] = Inr 93
   \<and> spec_overall_health_score [(''diabetes'', 0.0625)] = 94"
  unfolding score_sixteenth by (simp add: spec_overall_health_score_def round_def)

text \<open>
  Rounding decides the integer part as well: for a single risk of 0.8 the computed
  value is 19.999999999999996 and the score 19, and for a single risk of 0.1 the
  computed value is 90 and the score 90.
\<close>

lemma four_fifths_sum_1: "fadd (Finite (0)) (Finite (3602879701896397 / 2 ^ 52)) = Finite (3602879701896397 / 2 ^ 52)"
proof -
  have "fl (0 + 3602879701896397 / 2 ^ 52) = 3602879701896397 / 2 ^ 52"
    by (subst fl_eval[of "-1"]) (simp_all add: pow2_def round_half_even_def)
  then show ?thesis unfolding fadd.simps by (rule round_double_eval) simp
qed

lemma four_fifths_mean: "truediv (Finite (3602879701896397 / 2 ^ 52)) (Finite (1)) = Inr (Finite (3602879701896397 / 2 ^ 52))"
proof -
  have "fl (3602879701896397 / 2 ^ 52 / (1)) = 3602879701896397 / 2 ^ 52"
    by (subst fl_eval[of "-1"]) (simp_all add: pow2_def round_half_even_def)
  then have "round_double (3602879701896397 / 2 ^ 52 / (1)) = Finite (3602879701896397 / 2 ^ 52)"
    by (rule round_double_eval) simp
  then show ?thesis by simp
qed

lemma four_fifths_complement: "fsub (Finite (1)) (Finite (3602879701896397 / 2 ^ 52)) = Finite (900719925474099 / 2 ^ 52)"
proof -
  have "fl (1 + - (3602879701896397 / 2 ^ 52)) = 900719925474099 / 2 ^ 52"
    by (subst fl_eval[of "-3"]) (simp_all add: pow2_def round_half_even_def)
  then show ?thesis unfolding fsub_def fneg.simps fadd.simps by (rule round_double_eval) simp
qed

lemma four_fifths_product: "fmul (Finite (900719925474099 / 2 ^ 52)) (Finite (100)) = Finite (5629499534213119 / 2 ^ 48)"
proof -
  have "fl (900719925474099 / 2 ^ 52 * 100) = 5629499534213119 / 2 ^ 48"
    by (subst fl_eval[of "4"]) (simp_all add: pow2_def round_half_even_def)
  then show ?thesis unfolding fmul.simps by (rule round_double_eval) simp
qed

lemma score_four_fifths:
  "calculate_overall_health_score naive_sum [(''a'', lit 0.8)] = Inr 19"
  unfolding score_of_single lit_0_8 four_fifths_sum_1 four_fifths_mean sum.case
    four_fifths_complement four_fifths_product
  by simp

lemma tenth_sum_1: "fadd (Finite (0)) (Finite (3602879701896397 / 2 ^ 55)) = Finite (3602879701896397 / 2 ^ 55)"
proof -
  have "fl (0 + 3602879701896397 / 2 ^ 55) = 3602879701896397 / 2 ^ 55"
    by (subst fl_eval[of "-4"]) (simp_all add: pow2_def round_half_even_def)
  then show ?thesis unfolding fadd.simps by (rule round_double_eval) simp
qed

lemma tenth_mean: "truediv (Finite (3602879701896397 / 2 ^ 55)) (Finite (1)) = Inr (Finite (3602879701896397 / 2 ^ 55))"
proof -
  have "fl (3602879701896397 / 2 ^ 55 / (1)) = 3602879701896397 / 2 ^ 55"
    by (subst fl_eval[of "-4"]) (simp_all add: pow2_def round_half_even_def)
  then have "round_double (3602879701896397 / 2 ^ 55 / (1)) = Finite (3602879701896397 / 2 ^ 55)"
    by (rule round_double_eval) simp
  then show ?thesis by simp
qed

lemma tenth_complement: "fsub (Finite (1)) (Finite (3602879701896397 / 2 ^ 55)) = Finite (8106479329266893 / 2 ^ 53)"
proof -
  have "fl (1 + - (3602879701896397 / 2 ^ 55)) = 8106479329266893 / 2 ^ 53"
    by (subst fl_eval[of "-1"]) (simp_all add: pow2_def round_half_even_def)
  then show ?thesis unfolding fsub_def fneg.simps fadd.simps by (rule round_double_eval) simp
qed

lemma tenth_product: "fmul (Finite (8106479329266893 / 2 ^ 53)) (Finite (100)) = Finite (90)"
proof -
  have "fl (8106479329266893 / 2 ^ 53 * 100) = 90"
    by (subst fl_eval[of "6"]) (simp_all add: pow2_def round_half_even_def)
  then show ?thesis unfolding fmul.simps by (rule round_double_eval) simp
qed

lemma score_tenth:
  "calculate_overall_health_score naive_sum [(''a'', lit 0.1)] = Inr 90"
  unfolding score_of_single lit_0_1 tenth_sum_1 tenth_mean sum.case tenth_complement
    tenth_product
  by simp

section \<open>Properties of the activity detection service and its routes\<close>

lemma sqrt_four: "sqrt 4 = 2"
  using real_sqrt_abs[of 2] by simp

lemma np_magnitude_equal_lengths:
  assumes "length xs = length ys" "length ys = length zs"
    and "acc ''x'' = Some xs" "acc ''y'' = Some ys" "acc ''z'' = Some zs"
  shows "np_magnitude acc = Inr (acc_magnitude xs ys zs)"
proof -
  have "map sqrt (map2 (+) (map2 (+) (map (\<lambda>v. v ^ 2) xs) (map (\<lambda>v. v ^ 2) ys))
                    (map (\<lambda>v. v ^ 2) zs))
        = acc_magnitude xs ys zs"
    using assms(1,2)
    by (induction xs ys zs rule: list_induct3) (simp_all add: acc_magnitude_def)
  then show ?thesis using assms by (simp add: np_magnitude_def np_add_def)
qed

lemma axis_features_length: "length (axis_features d a) = 4"
  by (simp add: axis_features_def split: option.split)

lemma axis_features_Some:
  "d a = Some xs \<Longrightarrow> xs \<noteq> [] \<Longrightarrow>
   axis_features d a = [np_mean xs, np_std xs, np_max xs, np_min xs]"
  by (simp add: axis_features_def)

text \<open>
  The layout of the feature list for three accelerometer lists of one length: the mean
  and standard deviation of the x axis come first, the mean and standard deviation of
  the magnitude are the last two of 26 features.
\<close>

lemma extract_features_layout:
  assumes ne: "xs \<noteq> []" and l1: "length xs = length ys" and l2: "length ys = length zs"
    and ax: "acc ''x'' = Some xs" and ay: "acc ''y'' = Some ys" and az: "acc ''z'' = Some zs"
  shows "\<exists>rest. extract_features acc gyro d =
           Inr ([np_mean xs, np_std xs] @ rest @
                [np_mean (acc_magnitude xs ys zs), np_std (acc_magnitude xs ys zs)])
         \<and> length rest = 22"
proof -
  have ney: "ys \<noteq> []" and nez: "zs \<noteq> []" using ne l1 l2 by auto
  have tr: "truthy acc ''x''" "truthy acc ''y''" "truthy acc ''z''"
    using ne ney nez ax ay az by (simp_all add: truthy_def)
  define g where "g = concat (map (axis_features gyro) [''x'', ''y'', ''z''])"
  have lg: "length g = 12" unfolding g_def by (simp add: axis_features_length)
  have "extract_features acc gyro d =
          Inr (([np_mean xs, np_std xs, np_max xs, np_min xs] @
                [np_mean ys, np_std ys, np_max ys, np_min ys] @
                [np_mean zs, np_std zs, np_max zs, np_min zs]) @ g @
               [np_mean (acc_magnitude xs ys zs), np_std (acc_magnitude xs ys zs)])"
    unfolding extract_features_def Let_def
    using tr
    by (simp add: np_magnitude_equal_lengths[OF l1 l2 ax ay az]
          axis_features_Some[of acc "''x''" xs, OF ax ne]
          axis_features_Some[of acc "''y''" ys, OF ay ney]
          axis_features_Some[of acc "''z''" zs, OF az nez] g_def)
  then show ?thesis using lg
    by (intro exI[of _ "[np_max xs, np_min xs, np_mean ys, np_std ys, np_max ys, np_min ys,
                          np_mean zs, np_std zs, np_max zs, np_min zs] @ g"]) simp
qed

text \<open>
  The fallback prediction is the threshold ladder on the first two features.
\<close>

lemma mock_prediction_ladder:
  assumes "length fs \<ge> 2"
  shows "mock_prediction fs = threshold_ladder (fs ! 0) (fs ! 1)"
proof -
  have a: "(0 < length fs) = True" "(1 < length fs) = True" using assms by auto
  show ?thesis
    unfolding mock_prediction_def threshold_ladder_def Let_def a if_True ..
qed

text \<open>
  So, for three accelerometer lists of one length, the fallback evaluates the ladder on
  the mean and standard deviation of the x axis.
\<close>

lemma fallback_ladder_on_x_axis:
  assumes ne: "xs \<noteq> []" and l1: "length xs = length ys" and l2: "length ys = length zs"
    and ax: "acc ''x'' = Some xs" and ay: "acc ''y'' = Some ys" and az: "acc ''z'' = Some zs"
  shows "mock_prediction (projr (extract_features acc gyro d)) =
           threshold_ladder (np_mean xs) (np_std xs)"
proof -
  from extract_features_layout[OF assms, of gyro d] obtain rest where
    e: "extract_features acc gyro d =
          Inr ([np_mean xs, np_std xs] @ rest @
               [np_mean (acc_magnitude xs ys zs), np_std (acc_magnitude xs ys zs)])"
    by blast
  show ?thesis unfolding e sum.sel
    by (subst mock_prediction_ladder) simp_all
qed

lemma extract_features_z_swing:
  "extract_features (accelerometer_dict request_z_swing) (gyroscope_dict request_z_swing) d
   = Inr [0, 0, 0, 0, 0, 0, 0, 0, 1, 1, 2, 0, 0, 0, 0, 0, 0, 0, 0, 0, 0, 0, 0, 0, 1, 1]"
  by (simp add: accelerometer_dict_def gyroscope_dict_def request_z_swing_def
        extract_features_def axis_features_def truthy_def np_magnitude_def np_add_def
        np_mean_def np_std_def sqrt_four)

lemma predict_fallback:
  "predict None fs = Inr (fst (mock_prediction fs), snd (mock_prediction fs), [mock_prediction fs])"
  by (simp add: predict_def split: prod.split)

lemma estimate_calories_sitting_low: "estimate_calories ''sitting'' 60 ''low'' = 0.7"
  by (simp add: estimate_calories_def py_round1_def round_half_even_def)

text \<open>
  C4. At the request whose x and y axes are at rest while the z axis alternates between
  0 and 2, the magnitude of the accelerometer vector has mean 1 and standard deviation
  1, on which the threshold ladder gives running with confidence 0.85. Without a
  classifier the service answers sitting with confidence 0.90 instead: the fallback
  reads the mean and standard deviation of the x axis, both 0.
\<close>

theorem fallback_prediction_z_swing:
  "call_service None ptime request_z_swing =
     Inr \<lparr>predicted_activity = ''sitting'', confidence = 0.9,
          top_predictions = [(''sitting'', 0.9)], duration_seconds = 60,
          intensity_level = ''low'', estimated_calories = 0.7,
          features_extracted = 26, processing_time_ms = ptime\<rparr>
   \<and> np_mean (acc_magnitude (accelerometer_x (activity_request.data request_z_swing))
                (accelerometer_y (activity_request.data request_z_swing))
                (accelerometer_z (activity_request.data request_z_swing))) = 1
   \<and> np_std (acc_magnitude (accelerometer_x (activity_request.data request_z_swing))
                (accelerometer_y (activity_request.data request_z_swing))
                (accelerometer_z (activity_request.data request_z_swing))) = 1
   \<and> threshold_ladder 1 1 = (''running'', 0.85)"
proof (intro conjI)
  have d: "activity_request.duration_seconds request_z_swing = 60"
    by (simp add: request_z_swing_def)
  have mp: "mock_prediction
              [0, 0, 0, 0, 0, 0, 0, 0, 1, 1, 2, 0, 0, 0, 0, 0, 0, 0, 0, 0, 0, 0, 0, 0, 1, 1]
            = (''sitting'', 0.9)"
    by (simp add: mock_prediction_def)
  have ci: "calculate_intensity
              [0, 0, 0, 0, 0, 0, 0, 0, 1, 1, 2, 0, 0, 0, 0, 0, 0, 0, 0, 0, 0, 0, 0, 0, 1, 1]
            = ''low''"
    by (simp add: calculate_intensity_def)
  show "call_service None ptime request_z_swing =
     Inr \<lparr>predicted_activity = ''sitting'', confidence = 0.9,
          top_predictions = [(''sitting'', 0.9)], duration_seconds = 60,
          intensity_level = ''low'', estimated_calories = 0.7,
          features_extracted = 26, processing_time_ms = ptime\<rparr>"
    unfolding call_service_def detect_activity_def extract_features_z_swing d
    by (simp add: predict_fallback mp ci estimate_calories_sitting_low)
  show "np_mean (acc_magnitude (accelerometer_x (activity_request.data request_z_swing))
                (accelerometer_y (activity_request.data request_z_swing))
                (accelerometer_z (activity_request.data request_z_swing))) = 1"
    by (simp add: request_z_swing_def acc_magnitude_def np_mean_def sqrt_four)
  show "np_std (acc_magnitude (accelerometer_x (activity_request.data request_z_swing))
                (accelerometer_y (activity_request.data request_z_swing))
                (accelerometer_z (activity_request.data request_z_swing))) = 1"
    by (simp add: request_z_swing_def acc_magnitude_def np_mean_def np_std_def sqrt_four)
  show "threshold_ladder 1 1 = (''running'', 0.85)"
    by (simp add: threshold_ladder_def)
qed

text \<open>
  C5. For every request whose list of x-axis accelerometer samples has fewer than 10
  entries, the route \<open>detect_activity\<close> answers with status 500, the detail quoting the
  rendering of the validation error of status 400; the answer depends on neither the
  classifier nor the processing time, so the service is not called.
\<close>

theorem detect_activity_route_short:
  assumes "length (accelerometer_x (activity_request.data request)) < 10"
  shows "detect_activity_route http_str model ptime request =
           Inl (HTTPException 500
                  (''Activity detection failed: '' @
                   http_str (HTTPException 400 ''Insufficient sensor data'')))"
  using assms by (simp add: detect_activity_route_def)

theorem detect_activity_route_short_witness:
  "detect_activity_route (\<lambda>h. case h of HTTPException code detail \<Rightarrow> detail) None 100
     request_short =
     Inl (HTTPException 500 ''Activity detection failed: Insufficient sensor data'')"
proof -
  have "length (accelerometer_x (activity_request.data request_short)) < 10"
    by (simp add: request_short_def)
  from detect_activity_route_short[OF this,
         of "\<lambda>h. case h of HTTPException code detail \<Rightarrow> detail" None 100]
  show ?thesis by simp
qed

text \<open>
  The batch route returns one entry per request, in the order of the requests and
  numbered from 0; entry \<open>k\<close> carries an error exactly when the service call for
  request \<open>k\<close> raised.
\<close>

lemma batch_loop_length: "length (batch_loop model rnd i reqs) = length reqs"
  by (induction reqs arbitrary: i) simp_all

lemma batch_loop_nth:
  "k < length reqs \<Longrightarrow>
   batch_loop model rnd i reqs ! k = entry (i + k) (call_service model (rnd (i + k)) (reqs ! k))"
proof (induction reqs arbitrary: i k)
  case Nil
  then show ?case by simp
next
  case (Cons r rs)
  show ?case
  proof (cases k)
    case 0
    then show ?thesis by simp
  next
    case (Suc j)
    with Cons.prems have "j < length rs" by simp
    from Cons.IH[OF this, of "Suc i"] Suc show ?thesis by simp
  qed
qed

lemma has_error_entry: "has_error (entry i outcome) = isl outcome"
  by (simp add: entry_def split: sum.split)

lemma sample_id_entry: "sample_id (entry i outcome) = i"
  by (simp add: entry_def split: sum.split)

lemma detect_activity_batch_entries:
  "\<exists>rs. detect_activity_batch model rnd reqs =
           Inr \<lparr>success = True, data = \<lparr>results = rs, total_samples = length reqs\<rparr>\<rparr>
        \<and> length rs = length reqs
        \<and> (\<forall>k < length reqs.
              rs ! k = entry k (call_service model (rnd k) (reqs ! k))
              \<and> sample_id (rs ! k) = k
              \<and> has_error (rs ! k) = isl (call_service model (rnd k) (reqs ! k)))"
  by (simp add: detect_activity_batch_def batch_loop_length batch_loop_nth
        has_error_entry sample_id_entry)

lemma extract_features_full:
  "extract_features (accelerometer_dict request_full) (gyroscope_dict request_full) d
   = Inr [0, 0, 0, 0, 0, 0, 0, 0, 0, 0, 0, 0, 0, 0, 0, 0, 0, 0, 0, 0, 0, 0, 0, 0, 0, 0]"
  by (simp add: accelerometer_dict_def gyroscope_dict_def request_full_def
        extract_features_def axis_features_def truthy_def np_magnitude_def np_add_def
        np_mean_def np_std_def)

lemma extract_features_short:
  "extract_features (accelerometer_dict request_short) (gyroscope_dict request_short) d
   = Inr [0, 0, 0, 0, 0, 0, 0, 0, 0, 0, 0, 0, 0, 0, 0, 0, 0, 0, 0, 0, 0, 0, 0, 0, 0, 0]"
  by (simp add: accelerometer_dict_def gyroscope_dict_def request_short_def
        extract_features_def axis_features_def truthy_def np_magnitude_def np_add_def
        np_mean_def np_std_def)

text \<open>
  The service treats the request with five samples at rest like the one with twelve,
  whatever the classifier is.
\<close>

lemma call_service_short_like_full:
  "call_service model ptime request_short = call_service model ptime request_full"
proof -
  have d: "activity_request.duration_seconds request_short =
           activity_request.duration_seconds request_full"
    by (simp add: request_short_def request_full_def)
  show ?thesis
    unfolding call_service_def detect_activity_def extract_features_short
      extract_features_full d ..
qed

lemma call_service_full_fallback:
  "call_service None ptime request_full =
     Inr \<lparr>predicted_activity = ''sitting'', confidence = 0.9,
          top_predictions = [(''sitting'', 0.9)], duration_seconds = 60,
          intensity_level = ''low'', estimated_calories = 0.7,
          features_extracted = 26, processing_time_ms = ptime\<rparr>"
proof -
  have d: "activity_request.duration_seconds request_full = 60"
    by (simp add: request_full_def)
  have mp: "mock_prediction
              [0, 0, 0, 0, 0, 0, 0, 0, 0, 0, 0, 0, 0, 0, 0, 0, 0, 0, 0, 0, 0, 0, 0, 0, 0, 0]
            = (''sitting'', 0.9)"
    by (simp add: mock_prediction_def)
  have ci: "calculate_intensity
              [0, 0, 0, 0, 0, 0, 0, 0, 0, 0, 0, 0, 0, 0, 0, 0, 0, 0, 0, 0, 0, 0, 0, 0, 0, 0]
            = ''low''"
    by (simp add: calculate_intensity_def)
  show ?thesis
    unfolding call_service_def detect_activity_def extract_features_full d
    by (simp add: predict_fallback mp ci estimate_calories_sitting_low)
qed

text \<open>
  With any classifier, the entries for the batch of the request with twelve samples
  and the request with five samples are of one kind: both carry a result or both carry
  an error.
\<close>

lemma detect_activity_batch_short_same_kind:
  "map has_error
     (results (data (projr (detect_activity_batch model (\<lambda>i. p) [request_full, request_short]))))
   = [isl (call_service model p request_full), isl (call_service model p request_full)]"
  by (simp add: detect_activity_batch_def call_service_short_like_full has_error_entry)

text \<open>
  C6. For the batch of the request with twelve samples followed by the request with
  five samples, and no classifier, the batch route returns two entries numbered 0 and
  1, and both carry a result: the entry of the request with fewer than 10 samples has
  no error field.
\<close>

theorem detect_activity_batch_short_item:
  "detect_activity_batch None rnd [request_full, request_short] =
     Inr \<lparr>success = True,
          data = \<lparr>results =
                    [ResultEntry 0
                       \<lparr>predicted_activity = ''sitting'', confidence = 0.9,
                        top_predictions = [(''sitting'', 0.9)], duration_seconds = 60,
                        intensity_level = ''low'', estimated_calories = 0.7,
                        features_extracted = 26, processing_time_ms = rnd 0\<rparr>,
                     ResultEntry 1
                       \<lparr>predicted_activity = ''sitting'', confidence = 0.9,
                        top_predictions = [(''sitting'', 0.9)], duration_seconds = 60,
                        intensity_level = ''low'', estimated_calories = 0.7,
                        features_extracted = 26, processing_time_ms = rnd 1\<rparr>],
                  total_samples = 2\<rparr>\<rparr>"
  by (simp add: detect_activity_batch_def call_service_short_like_full
        call_service_full_fallback entry_def)

section \<open>Properties of the chat service\<close>

lemma str_uuid_nonempty: "str_uuid u \<noteq> []"
  by (simp add: str_uuid_def Let_def)

lemma start_conversation_eq:
  "start_conversation uid ctx (s, e) =
     (str_uuid (shd (uuids e)),
      s\<lparr>conversations := (conversations s)(str_uuid (shd (uuids e)) \<mapsto>
           \<lparr>user_id = uid, context_tag = ctx, messages = [],
            created_at = shd (clock e), last_activity = shd (stl (clock e))\<rparr>)\<rparr>,
      e\<lparr>uuids := stl (uuids e), clock := stl (stl (clock e))\<rparr>)"
  by (simp add: start_conversation_def uuid4_def datetime_now_def Let_def)

lemma store_message_absent:
  "conversations s cid = None \<Longrightarrow> store_message cid m b u (s, e) = (s, e)"
  by (simp add: store_message_def)

lemma store_message_present:
  "conversations s cid = Some c \<Longrightarrow>
   store_message cid m b u (s, e) =
     (s\<lparr>conversations := (conversations s)(cid \<mapsto>
          c\<lparr>messages := messages c @
                 [\<lparr>chat_message.message = m, is_user = b, timestamp = shd (clock e),
                   user_id = u\<rparr>],
            last_activity := shd (stl (clock e))\<rparr>)\<rparr>,
      e\<lparr>clock := stl (stl (clock e))\<rparr>)"
  by (simp add: store_message_def datetime_now_def)

lemma random_choice_env: "snd (random_choice xs e) = e\<lparr>rands := stl (rands e)\<rparr>"
  by (simp add: random_choice_def)

lemma generate_contextual_response_env:
  "snd (generate_contextual_response msg info e) = e\<lparr>rands := stl (rands e)\<rparr>"
  unfolding generate_contextual_response_def Let_def by (rule random_choice_env)

lemma generate_response_env:
  "snd (generate_response str_lower msg ctx cid e) = e\<lparr>rands := stl (rands e)\<rparr>"
  unfolding generate_response_def Let_def split_def snd_conv
  by (rule generate_contextual_response_env)

lemma process_message_absent:
  assumes "cid \<noteq> []" "conversations s cid = None"
  shows "process_message str_lower msg uid ctx (Some cid) (s, e) =
           (Inr \<lparr>message = response.message (fst (generate_response str_lower msg ctx cid e)),
                 conversation_id = cid,
                 suggestions = response.suggestions (fst (generate_response str_lower msg ctx cid e)),
                 context_data = response.context_data (fst (generate_response str_lower msg ctx cid e))\<rparr>,
            s, e\<lparr>rands := stl (rands e)\<rparr>)"
  using assms
  by (simp add: process_message_def store_message_absent split_def generate_response_env Let_def)

lemma process_message_present:
  assumes "cid \<noteq> []" "conversations s cid = Some c"
  shows "process_message str_lower msg uid ctx (Some cid) (s, e) =
           (Inr \<lparr>message = response.message
                             (fst (generate_response str_lower msg ctx cid (e\<lparr>clock := stl (stl (clock e))\<rparr>))),
                 conversation_id = cid,
                 suggestions = response.suggestions
                             (fst (generate_response str_lower msg ctx cid (e\<lparr>clock := stl (stl (clock e))\<rparr>))),
                 context_data = response.context_data
                             (fst (generate_response str_lower msg ctx cid (e\<lparr>clock := stl (stl (clock e))\<rparr>)))\<rparr>,
            s\<lparr>conversations := (conversations s)(cid \<mapsto>
                 c\<lparr>messages := messages c @
                        [\<lparr>chat_message.message = msg, is_user = True,
                          timestamp = shd (clock e), user_id = uid\<rparr>,
                         \<lparr>chat_message.message = response.message
                             (fst (generate_response str_lower msg ctx cid (e\<lparr>clock := stl (stl (clock e))\<rparr>))),
                          is_user = False,
                          timestamp = shd (stl (stl (clock e))), user_id = uid\<rparr>],
                   last_activity := shd (stl (stl (stl (clock e))))\<rparr>)\<rparr>,
            e\<lparr>clock := stl (stl (stl (stl (clock e)))), rands := stl (rands e)\<rparr>)"
  using assms
  by (simp add: process_message_def store_message_present split_def generate_response_env Let_def)

lemma process_message_new:
  assumes "conv_id = None \<or> conv_id = Some []"
  shows "process_message str_lower msg uid ctx conv_id (s, e) =
           process_message str_lower msg uid ctx (Some (fst (start_conversation uid ctx (s, e))))
             (snd (start_conversation uid ctx (s, e)))"
  using assms
  by (auto simp add: process_message_def start_conversation_eq str_uuid_nonempty)

text \<open>
  C8. For every user id and context, and from every state: the history of the
  conversation that \<open>start_conversation\<close> has just created is the empty list; after one
  \<open>process_message\<close> call on that conversation the call returns a reply carrying the
  same id, and the history holds exactly two messages, first the user's message, then
  the assistant's message, which is the message of the reply.
\<close>

theorem history_after_start_and_one_message:
  "(let (cid, st1) = start_conversation uid ctx (s, e);
        (r, st2) = process_message str_lower msg uid' ctx' (Some cid) st1
    in get_conversation_history cid (fst st1) = Inr []
       \<and> (\<exists>reply. r = Inr reply \<and> conversation_id reply = cid
            \<and> get_conversation_history cid (fst st2) =
                Inr [\<lparr>chat_message.message = msg, is_user = True,
                      timestamp = shd (stl (stl (clock e))), user_id = uid'\<rparr>,
                     \<lparr>chat_message.message = chat_reply.message reply, is_user = False,
                      timestamp = shd (stl (stl (stl (stl (clock e))))), user_id = uid'\<rparr>]))"
proof -
  define cid where "cid = str_uuid (shd (uuids e))"
  define c0 where "c0 = \<lparr>conversation.user_id = uid, context_tag = ctx, messages = [],
            created_at = shd (clock e), last_activity = shd (stl (clock e))\<rparr>"
  define s1 where "s1 = s\<lparr>conversations := (conversations s)(cid \<mapsto> c0)\<rparr>"
  define e1 where "e1 = e\<lparr>uuids := stl (uuids e), clock := stl (stl (clock e))\<rparr>"
  have st: "start_conversation uid ctx (s, e) = (cid, s1, e1)"
    by (simp add: start_conversation_eq cid_def c0_def s1_def e1_def)
  have ne: "cid \<noteq> []" by (simp add: cid_def str_uuid_nonempty)
  have look: "conversations s1 cid = Some c0" by (simp add: s1_def)
  have h0: "get_conversation_history cid s1 = Inr []"
    by (simp add: get_conversation_history_def look c0_def)
  show ?thesis
    unfolding st
    by (simp add: process_message_present[OF ne look] look get_conversation_history_def
          c0_def e1_def)
qed

text \<open>
  C10, as amended. For every non-empty conversation id that is not in the store,
  \<open>process_message\<close> raises nothing and returns a reply carrying that id, and the
  service state it returns is the state it was given: no conversation is created and
  no message is stored.
\<close>

theorem process_message_unknown_id:
  assumes "cid \<noteq> []" and "conversations s cid = None"
  shows "\<exists>reply e'. process_message str_lower msg uid ctx (Some cid) (s, e) = (Inr reply, s, e')
            \<and> conversation_id reply = cid"
  by (simp add: process_message_absent[OF assms])

theorem process_message_unknown_id_witness:
  "\<exists>reply e'. process_message ascii_lower ''hello'' ''u1'' ''health_coaching'' (Some ''abc'')
                  (empty_service, example_env) = (Inr reply, empty_service, e')
            \<and> conversation_id reply = ''abc''"
proof -
  have a: "''abc'' \<noteq> []" by simp
  have b: "conversations empty_service ''abc'' = None" by (simp add: empty_service_def)
  from process_message_unknown_id[OF a b] show ?thesis .
qed

text \<open>
  The empty string is an id that is not in the store, and \<open>process_message\<close> called
  with it starts a conversation: the store changes and the reply carries another id.
\<close>

theorem process_message_empty_id_starts_conversation:
  "conversations empty_service [] = None
   \<and> fst (snd (process_message ascii_lower ''hello'' ''u1'' ''health_coaching'' (Some [])
                  (empty_service, example_env))) \<noteq> empty_service
   \<and> conversation_id (projr (fst (process_message ascii_lower ''hello'' ''u1'' ''health_coaching'' (Some [])
                  (empty_service, example_env)))) \<noteq> []"
proof -
  define cid where "cid = str_uuid (shd (uuids example_env))"
  define c0 where "c0 = \<lparr>conversation.user_id = ''u1'', context_tag = ''health_coaching'', messages = [],
            created_at = shd (clock example_env), last_activity = shd (stl (clock example_env))\<rparr>"
  define s1 where "s1 = empty_service\<lparr>conversations := (conversations empty_service)(cid \<mapsto> c0)\<rparr>"
  define e1 where "e1 = example_env\<lparr>uuids := stl (uuids example_env), clock := stl (stl (clock example_env))\<rparr>"
  have st: "start_conversation ''u1'' ''health_coaching'' (empty_service, example_env) = (cid, s1, e1)"
    by (simp add: start_conversation_eq cid_def c0_def s1_def e1_def)
  have ne: "cid \<noteq> []" by (simp add: cid_def str_uuid_nonempty)
  have look: "conversations s1 cid = Some c0" by (simp add: s1_def)
  have pm: "process_message ascii_lower ''hello'' ''u1'' ''health_coaching'' (Some []) (empty_service, example_env)
            = process_message ascii_lower ''hello'' ''u1'' ''health_coaching'' (Some cid) (s1, e1)"
    by (simp add: process_message_new st)
  have "conversations (fst (snd (process_message ascii_lower ''hello'' ''u1'' ''health_coaching'' (Some cid) (s1, e1)))) cid \<noteq> None"
    by (simp add: process_message_present[OF ne look])
  moreover have "conversations empty_service cid = None" by (simp add: empty_service_def)
  ultimately have "fst (snd (process_message ascii_lower ''hello'' ''u1'' ''health_coaching'' (Some cid) (s1, e1))) \<noteq> empty_service"
    by auto
  moreover have "conversation_id (projr (fst (process_message ascii_lower ''hello'' ''u1'' ''health_coaching'' (Some cid) (s1, e1)))) = cid"
    by (simp add: process_message_present[OF ne look])
  moreover have "conversations empty_service [] = None" by (simp add: empty_service_def)
  ultimately show ?thesis using ne unfolding pm by simp
qed

text \<open>
  The effect of each operation on the contexts of the stored conversations: only the
  creation of a conversation sets one, and deletion removes one.
\<close>

lemma ctx_start:
  "start_conversation uid ctx st = (cid, st') \<Longrightarrow> ctx_of (fst st') = (ctx_of (fst st))(cid \<mapsto> ctx)"
  by (cases st) (auto simp add: start_conversation_eq ctx_of_def fun_eq_iff)

lemma ctx_store: "ctx_of (fst (store_message cid m b u st)) = ctx_of (fst st)"
proof (cases st)
  case (Pair s e)
  show ?thesis
  proof (cases "conversations s cid")
    case None
    then show ?thesis by (simp add: Pair store_message_absent)
  next
    case (Some c)
    then show ?thesis by (auto simp add: Pair store_message_present ctx_of_def fun_eq_iff)
  qed
qed

lemma ctx_process_existing:
  assumes "c \<noteq> []"
  shows "ctx_of (fst (snd (process_message str_lower msg uid ctx (Some c) st))) = ctx_of (fst st)"
proof (cases st)
  case (Pair s e)
  show ?thesis
  proof (cases "conversations s c")
    case None
    then show ?thesis by (simp add: Pair process_message_absent[OF assms])
  next
    case (Some v)
    then show ?thesis
      by (auto simp add: Pair process_message_present[OF assms] ctx_of_def fun_eq_iff)
  qed
qed

lemma ctx_process_new:
  assumes "conv_id = None \<or> conv_id = Some []"
    and "process_message str_lower msg uid ctx conv_id st = (Inr r, st')"
  shows "ctx_of (fst st') = (ctx_of (fst st))(conversation_id r \<mapsto> ctx)"
proof (cases st)
  case (Pair s e)
  define cid where "cid = str_uuid (shd (uuids e))"
  define c0 where "c0 = \<lparr>conversation.user_id = uid, context_tag = ctx, messages = [],
            created_at = shd (clock e), last_activity = shd (stl (clock e))\<rparr>"
  define s1 where "s1 = s\<lparr>conversations := (conversations s)(cid \<mapsto> c0)\<rparr>"
  define e1 where "e1 = e\<lparr>uuids := stl (uuids e), clock := stl (stl (clock e))\<rparr>"
  have st: "start_conversation uid ctx (s, e) = (cid, s1, e1)"
    by (simp add: start_conversation_eq cid_def c0_def s1_def e1_def)
  have ne: "cid \<noteq> []" by (simp add: cid_def str_uuid_nonempty)
  have look: "conversations s1 cid = Some c0" by (simp add: s1_def)
  have pm: "process_message str_lower msg uid ctx conv_id (s, e) = process_message str_lower msg uid ctx (Some cid) (s1, e1)"
    using assms(1) by (simp add: process_message_new st)
  from assms(2) have r: "conversation_id r = cid" and s': "ctx_of (fst st') = ctx_of s1"
    unfolding Pair pm process_message_present[OF ne look]
    by (auto simp add: ctx_of_def fun_eq_iff s1_def c0_def)
  have "ctx_of s1 = (ctx_of s)(cid \<mapsto> ctx)"
    by (auto simp add: ctx_of_def fun_eq_iff s1_def c0_def)
  then show ?thesis using r s' by (simp add: Pair)
qed

lemma ctx_delete: "ctx_of (delete_conversation cid s) = (ctx_of s)(cid := None)"
  by (auto simp add: delete_conversation_def ctx_of_def fun_eq_iff)

lemma reachable_ctx:
  "reachable str_lower st created \<Longrightarrow> ctx_of (fst st) k = Some x \<Longrightarrow> created k = Some x"
proof (induction arbitrary: k x rule: reachable.induct)
  case (init e)
  then show ?case by (simp add: ctx_of_def)
next
  case (start st created uid ctx cid st')
  from ctx_start[OF start.hyps(2)] start.prems start.IH show ?case
    by (auto split: if_splits)
next
  case (process_new st created conv_id msg uid ctx r st')
  from ctx_process_new[OF process_new.hyps(2,3)] process_new.prems process_new.IH show ?case
    by (auto split: if_splits)
next
  case (process_existing st created conv_id c msg uid ctx r st')
  from ctx_process_existing[OF process_existing.hyps(3), of str_lower msg uid ctx st]
    process_existing.hyps(2,4) process_existing.prems process_existing.IH
  show ?case by simp
next
  case (store st created cid msg is_usr uid)
  then show ?case by (simp add: ctx_store)
next
  case (history st created cid h)
  then show ?case by simp
next
  case (delete s e created cid)
  then show ?case by (auto simp add: ctx_delete split: if_splits)
qed

text \<open>
  C9. In every reachable state, the context of each stored conversation is the context
  that was passed to \<open>start_conversation\<close> when the conversation was created.
\<close>

theorem conversation_context_fixed:
  assumes "reachable str_lower st created" and "conversations (fst st) cid = Some c"
  shows "created cid = Some (context_tag c)"
  using reachable_ctx[OF assms(1), of cid "context_tag c"] assms(2) by (simp add: ctx_of_def)

theorem conversation_context_fixed_witness:
  "map_option context_tag
     (conversations
        (fst (snd (process_message ascii_lower ''hello'' ''u1'' ''mental_wellness''
                     (Some (fst (start_conversation ''u1'' ''diabetes_management''
                                   (empty_service, example_env))))
                     (snd (start_conversation ''u1'' ''diabetes_management''
                             (empty_service, example_env))))))
        (fst (start_conversation ''u1'' ''diabetes_management'' (empty_service, example_env))))
   = Some ''diabetes_management''"
proof -
  define cid where "cid = str_uuid (shd (uuids example_env))"
  define c0 where "c0 = \<lparr>conversation.user_id = ''u1'', context_tag = ''diabetes_management'',
            messages = [], created_at = shd (clock example_env),
            last_activity = shd (stl (clock example_env))\<rparr>"
  define s1 where "s1 = empty_service\<lparr>conversations := (conversations empty_service)(cid \<mapsto> c0)\<rparr>"
  define e1 where "e1 = example_env\<lparr>uuids := stl (uuids example_env),
                                    clock := stl (stl (clock example_env))\<rparr>"
  have st: "start_conversation ''u1'' ''diabetes_management'' (empty_service, example_env)
            = (cid, s1, e1)"
    by (simp add: start_conversation_eq cid_def c0_def s1_def e1_def)
  have ne: "cid \<noteq> []" by (simp add: cid_def str_uuid_nonempty)
  have look: "conversations s1 cid = Some c0" by (simp add: s1_def)
  obtain r st2 where pm:
    "process_message ascii_lower ''hello'' ''u1'' ''mental_wellness'' (Some cid) (s1, e1) = (Inr r, st2)"
    by (simp add: process_message_present[OF ne look])
  obtain c where stored: "conversations (fst st2) cid = Some c"
    using pm by (auto simp add: process_message_present[OF ne look])
  have r0: "reachable ascii_lower (empty_service, example_env) Map.empty"
    unfolding empty_service_def by (rule reachable.init)
  have r1: "reachable ascii_lower (s1, e1) [cid \<mapsto> ''diabetes_management'']"
    by (rule reachable.start[OF r0 st])
  have r2: "reachable ascii_lower st2 [cid \<mapsto> ''diabetes_management'']"
    by (rule reachable.process_existing[OF r1 refl ne pm])
  from conversation_context_fixed[OF r2 stored] have "context_tag c = ''diabetes_management''" by simp
  then show ?thesis unfolding st using stored pm by simp
qed


end
